theory Spec2Isabelle
  imports Complex_Main "HOL-Library.AList" "HOL-Library.Char_ord" "HOL-Library.List_Lexorder"
begin

section \<open>Floating-point values\<close>

text \<open>
  The scanner and the portfolio tracker compute with IEEE doubles (Python floats and
  numpy float64 scalars).  A double is modelled as a real number or one of the three
  special values; finite arithmetic is exact (rounding error, overflow and signed
  zeros are not modelled, a zero is taken to be positive).  Division follows numpy:
  a zero denominator raises nothing and gives an infinity or NaN.
\<close>

datatype fl = Fin real | PInf | NInf | NaN

fun fl_isnan :: "fl \<Rightarrow> bool" where
  "fl_isnan NaN = True"
| "fl_isnan _ = False"

fun fl_sgn :: "fl \<Rightarrow> int" where
  "fl_sgn (Fin x) = (if 0 < x then 1 else if x < 0 then - 1 else 0)"
| "fl_sgn PInf = 1"
| "fl_sgn NInf = - 1"
| "fl_sgn NaN = 0"

fun fl_neg :: "fl \<Rightarrow> fl" where
  "fl_neg (Fin x) = Fin (- x)"
| "fl_neg PInf = NInf"
| "fl_neg NInf = PInf"
| "fl_neg NaN = NaN"

fun fl_add :: "fl \<Rightarrow> fl \<Rightarrow> fl" where
  "fl_add NaN _ = NaN"
| "fl_add _ NaN = NaN"
| "fl_add (Fin x) (Fin y) = Fin (x + y)"
| "fl_add PInf NInf = NaN"
| "fl_add NInf PInf = NaN"
| "fl_add PInf _ = PInf"
| "fl_add _ PInf = PInf"
| "fl_add NInf _ = NInf"
| "fl_add _ NInf = NInf"

definition fl_sub :: "fl \<Rightarrow> fl \<Rightarrow> fl" where
  "fl_sub a b = fl_add a (fl_neg b)"

definition fl_of_sign :: "int \<Rightarrow> fl" where
  "fl_of_sign s = (if s = 0 then NaN else if 0 < s then PInf else NInf)"

fun fl_mul :: "fl \<Rightarrow> fl \<Rightarrow> fl" where
  "fl_mul NaN _ = NaN"
| "fl_mul _ NaN = NaN"
| "fl_mul (Fin x) (Fin y) = Fin (x * y)"
| "fl_mul a b = fl_of_sign (fl_sgn a * fl_sgn b)"

fun fl_div :: "fl \<Rightarrow> fl \<Rightarrow> fl" where
  "fl_div NaN _ = NaN"
| "fl_div _ NaN = NaN"
| "fl_div (Fin x) (Fin y) = (if y \<noteq> 0 then Fin (x / y) else fl_of_sign (fl_sgn (Fin x)))"
| "fl_div (Fin x) _ = Fin 0"
| "fl_div a (Fin y) = fl_of_sign (fl_sgn a * (if y < 0 then - 1 else 1))"
| "fl_div _ _ = NaN"

fun fl_lt :: "fl \<Rightarrow> fl \<Rightarrow> bool" where
  "fl_lt NaN _ = False"
| "fl_lt _ NaN = False"
| "fl_lt (Fin x) (Fin y) = (x < y)"
| "fl_lt _ NInf = False"
| "fl_lt NInf _ = True"
| "fl_lt PInf _ = False"
| "fl_lt _ PInf = True"

fun fl_le :: "fl \<Rightarrow> fl \<Rightarrow> bool" where
  "fl_le NaN _ = False"
| "fl_le _ NaN = False"
| "fl_le (Fin x) (Fin y) = (x \<le> y)"
| "fl_le NInf _ = True"
| "fl_le _ PInf = True"
| "fl_le _ NInf = False"
| "fl_le PInf _ = False"

definition fl_gt :: "fl \<Rightarrow> fl \<Rightarrow> bool" where
  "fl_gt a b = fl_lt b a"

definition fl_ge :: "fl \<Rightarrow> fl \<Rightarrow> bool" where
  "fl_ge a b = fl_le b a"

text \<open>
  \<open>round(x, n)\<close> rounds to \<open>n\<close> decimals, a tie going to the even neighbour; an
  infinity or NaN is returned as it is.
\<close>

definition round_half_even :: "real \<Rightarrow> int" where
  "round_half_even x =
     (let f = \<lfloor>x\<rfloor>; d = x - of_int f
      in if d < 1 / 2 then f else if 1 / 2 < d then f + 1
         else if even f then f else f + 1)"

definition round_nd :: "nat \<Rightarrow> real \<Rightarrow> real" where
  "round_nd n x = of_int (round_half_even (x * 10 ^ n)) / 10 ^ n"

fun fl_round :: "nat \<Rightarrow> fl \<Rightarrow> fl" where
  "fl_round n (Fin x) = Fin (round_nd n x)"
| "fl_round n a = a"


section \<open>scanner_bot.py: metrics of one ticker\<close>

text \<open>
  What yfinance returns is an input of the model.  \<open>ticker.info\<close> is a dictionary
  whose values are numbers or \<open>None\<close>; \<open>ticker.history\<close> is a table of daily bars in
  date order, with finite prices.  Either call can raise.
\<close>

datatype 'a attempt = Raises | Returns 'a

type_synonym info = "string \<rightharpoonup> real option"

record bar =
  Date :: int
  Open :: real
  Close :: real

definition dict_get :: "('k \<rightharpoonup> 'v) \<Rightarrow> 'k \<Rightarrow> 'v \<Rightarrow> 'v" where
  "dict_get d k dflt = (case d k of None \<Rightarrow> dflt | Some v \<Rightarrow> v)"

text \<open>
  The row of the scan table.  The columns that are only displayed (volume, market
  cap, PE, EPS, beta, range, target) are left out: their values are copied or
  formatted from \<open>info\<close> and cannot raise.  \<open>RSI_14 = None\<close> is the cell \<open>'N/A'\<close>.
\<close>

record scan_row =
  Symbol :: string
  Price :: fl
  Change_pct :: real
  RSI_14 :: "fl option"
  Weekly_Ret_pct :: fl
  Monthly_Ret_pct :: fl
  YTD_Ret_pct :: fl
  Ret_52W_pct :: fl

subsection \<open>The pandas series operations used for the RSI\<close>

text \<open>\<open>Series.diff()\<close>: the first element is missing.\<close>

definition diff :: "real list \<Rightarrow> real option list" where
  "diff xs = (case xs of [] \<Rightarrow> [] | _ # ys \<Rightarrow> None # map (\<lambda>(a, b). Some (b - a)) (zip xs ys))"

text \<open>\<open>delta.where(delta > 0, 0)\<close> and \<open>-delta.where(delta < 0, 0)\<close>: a missing
  value fails the comparison and is replaced like any other.\<close>

definition where_pos :: "real option list \<Rightarrow> real list" where
  "where_pos delta = map (\<lambda>d. case d of None \<Rightarrow> 0 | Some v \<Rightarrow> if 0 < v then v else 0) delta"

definition neg_where_neg :: "real option list \<Rightarrow> real list" where
  "neg_where_neg delta =
     map (\<lambda>d. - (case d of None \<Rightarrow> 0 | Some v \<Rightarrow> if v < 0 then v else 0)) delta"

text \<open>\<open>rolling(window=w).mean()\<close>: missing until \<open>w\<close> values are there.\<close>

definition rolling_mean :: "nat \<Rightarrow> real list \<Rightarrow> real option list" where
  "rolling_mean w xs =
     map (\<lambda>i. if i + 1 < w then None
              else Some (sum_list (take w (drop (i + 1 - w) xs)) / real w))
         [0..<length xs]"

definition series_div :: "real option list \<Rightarrow> real option list \<Rightarrow> fl list" where
  "series_div gain loss =
     map (\<lambda>(g, l). case (g, l) of (Some a, Some b) \<Rightarrow> fl_div (Fin a) (Fin b) | _ \<Rightarrow> NaN)
         (zip gain loss)"

definition rsi_14 :: "real list \<Rightarrow> fl" where
  "rsi_14 closes =
     (let delta = diff closes;
          gain = rolling_mean 14 (where_pos delta);
          loss = rolling_mean 14 (neg_where_neg delta);
          rs = series_div gain loss;
          rsi = fl_sub (Fin 100) (last (map (\<lambda>r. fl_div (Fin 100) (fl_add (Fin 1) r)) rs))
      in if fl_isnan rsi
         then (if (case last gain of Some g \<Rightarrow> 0 < g | None \<Rightarrow> False) then Fin 100 else Fin 50)
         else rsi)"

subsection \<open>get_stock_data\<close>

definition get_stock_data :: "string \<Rightarrow> int \<Rightarrow> (info \<times> bar list) attempt \<Rightarrow> scan_row option" where
  "get_stock_data ticker_symbol start_of_year fetched =
     (case fetched of
        Raises \<Rightarrow> None
      | Returns (info, hist) \<Rightarrow>
          if hist = [] then None
          else
            let closes = map Close hist;
                n = length hist;
                current_price =
                  (case dict_get info ''currentPrice''
                          (dict_get info ''regularMarketPrice'' (Some 0)) of
                     None \<Rightarrow> last closes
                   | Some v \<Rightarrow> if v = 0 then last closes else v);
                weekly_return =
                  (if 6 \<le> n
                   then let price_5d_ago = closes ! (n - 6)
                        in fl_div (fl_sub (Fin current_price) (Fin price_5d_ago)) (Fin price_5d_ago)
                   else Fin 0);
                monthly_return =
                  (if 22 \<le> n
                   then let price_1m_ago = closes ! (n - 22)
                        in fl_div (fl_sub (Fin current_price) (Fin price_1m_ago)) (Fin price_1m_ago)
                   else Fin 0);
                hist_ytd = filter (\<lambda>b. start_of_year \<le> Date b) hist;
                ytd_return =
                  (case hist_ytd of
                     [] \<Rightarrow> Fin 0
                   | b # _ \<Rightarrow>
                       let price_start_year = Open b
                       in fl_div (fl_sub (Fin current_price) (Fin price_start_year))
                            (Fin price_start_year));
                year_return =
                  (if 0 < n
                   then let price_1y_ago = closes ! 0
                        in fl_div (fl_sub (Fin current_price) (Fin price_1y_ago)) (Fin price_1y_ago)
                   else Fin 0);
                rsi = (if 15 \<le> n then rsi_14 closes else NaN)
            in (case dict_get info ''regularMarketChangePercent'' (Some 0) of
                 None \<Rightarrow> None
               | Some change \<Rightarrow>
                   Some \<lparr>Symbol = ticker_symbol,
                         Price = Fin current_price,
                         Change_pct = change * 100,
                         RSI_14 = (if \<not> fl_isnan rsi then Some (fl_round 2 rsi) else None),
                         Weekly_Ret_pct = fl_round 2 (fl_mul weekly_return (Fin 100)),
                         Monthly_Ret_pct = fl_round 2 (fl_mul monthly_return (Fin 100)),
                         YTD_Ret_pct = fl_round 2 (fl_mul ytd_return (Fin 100)),
                         Ret_52W_pct = fl_round 2 (fl_mul year_return (Fin 100))\<rparr>))"


section \<open>scanner_bot.py: the List column\<close>

text \<open>
  \<open>main\<close> selects three sub-tables by boolean masks, sets the column \<open>List\<close> to
  \<open>'Other'\<close> and then overwrites it at the index of each non-empty sub-table, in
  the order Simmering Growth, Rockets, Turnarounds.  A comparison with NaN is false.
\<close>

definition in_simmering :: "'a scan_row_scheme \<Rightarrow> bool" where
  "in_simmering r \<longleftrightarrow>
     fl_ge (Ret_52W_pct r) (Fin 10) \<and> fl_le (Ret_52W_pct r) (Fin 20) \<and>
     fl_gt (Monthly_Ret_pct r) (Fin 5)"

definition in_rockets :: "'a scan_row_scheme \<Rightarrow> bool" where
  "in_rockets r \<longleftrightarrow> fl_gt (Ret_52W_pct r) (Fin 50) \<and> fl_gt (Monthly_Ret_pct r) (Fin 10)"

definition in_turnarounds :: "'a scan_row_scheme \<Rightarrow> bool" where
  "in_turnarounds r \<longleftrightarrow> fl_lt (Ret_52W_pct r) (Fin 0) \<and> fl_gt (Monthly_Ret_pct r) (Fin 10)"

text \<open>The index of \<open>df[mask]\<close>, and \<open>df.loc[index, 'List'] = v\<close> on the column.\<close>

definition mask_index :: "('a \<Rightarrow> bool) \<Rightarrow> 'a list \<Rightarrow> nat list" where
  "mask_index P df = filter (\<lambda>i. P (df ! i)) [0..<length df]"

definition loc_assign :: "nat list \<Rightarrow> 'b \<Rightarrow> 'b list \<Rightarrow> 'b list" where
  "loc_assign idx v col = fold (\<lambda>i c. c[i := v]) idx col"

definition assign_lists :: "scan_row list \<Rightarrow> string list" where
  "assign_lists df =
     (let simmering = mask_index in_simmering df;
          rockets = mask_index in_rockets df;
          turnarounds = mask_index in_turnarounds df;
          col0 = replicate (length df) ''Other'';
          col1 = (if simmering \<noteq> [] then loc_assign simmering ''Simmering Growth'' col0 else col0);
          col2 = (if rockets \<noteq> [] then loc_assign rockets ''Rockets'' col1 else col1);
          col3 = (if turnarounds \<noteq> [] then loc_assign turnarounds ''Turnarounds'' col2 else col2)
      in col3)"

record classified_row = scan_row +
  List_label :: string

definition with_list :: "scan_row \<Rightarrow> string \<Rightarrow> classified_row" where
  "with_list r l =
     \<lparr>Symbol = Symbol r, Price = Price r, Change_pct = Change_pct r, RSI_14 = RSI_14 r,
      Weekly_Ret_pct = Weekly_Ret_pct r, Monthly_Ret_pct = Monthly_Ret_pct r,
      YTD_Ret_pct = YTD_Ret_pct r, Ret_52W_pct = Ret_52W_pct r, List_label = l\<rparr>"

definition classified :: "scan_row list \<Rightarrow> classified_row list" where
  "classified df = map (\<lambda>(r, l). with_list r l) (zip df (assign_lists df))"

text \<open>
  The bucket as the specification words it: the three rules tried in order on one
  row, a later match replacing an earlier one.
\<close>

definition bucket_spec :: "fl \<Rightarrow> fl \<Rightarrow> string" where
  "bucket_spec year52w monthly =
     (let b0 = ''Other'';
          b1 = (if fl_le (Fin 10) year52w \<and> fl_le year52w (Fin 20) \<and> fl_lt (Fin 5) monthly
                then ''Simmering Growth'' else b0);
          b2 = (if fl_lt (Fin 50) year52w \<and> fl_lt (Fin 10) monthly then ''Rockets'' else b1);
          b3 = (if fl_lt year52w (Fin 0) \<and> fl_lt (Fin 10) monthly then ''Turnarounds'' else b2)
      in b3)"

section \<open>portfolio_manager.py\<close>

subsection \<open>Portfolio files and pandas\<close>

text \<open>
  One row of a daily portfolio file.  On disk the cells of the columns Date, Symbol
  and List are texts; in a table that pandas has read, such a cell is a \<open>str\<close> or a
  value that is not a \<open>str\<close> (NaN, a boolean, a number), kept with the text that
  \<open>to_csv\<close> writes for it.  The other columns hold numbers.  The directory
  \<open>Portfolios\<close> is a list of paths with their contents; a file is a table of rows or
  cannot be read.
\<close>

record 'c position =
  P_Date :: 'c
  P_Symbol :: 'c
  P_List :: 'c
  Entry_Price :: fl
  Quantity :: fl
  Initial_Value :: fl
  Current_Price :: fl
  Current_Value :: fl
  Return_pct :: fl

datatype ledger_file = Unreadable | Rows "string position list"

type_synonym files = "(string \<times> ledger_file) list"

datatype cell = Str string | Not_str string

text \<open>
  \<open>pd.read_csv\<close> reads a cell whose text is one of its default missing-value markers
  as NaN, whatever the column.  The remaining cells of a column are read as texts,
  unless pandas takes all of them as booleans or as numbers.  Which columns those
  are, and the text that is written back for such a value, is an input of the model:
  an \<open>inference\<close> gives, for the texts of a column, \<open>None\<close> when the column is read as
  text and otherwise the text written back for each cell.  NaN is written as the
  empty text.
\<close>

definition na_values :: "string list" where
  "na_values =
     ['''', ''#N/A'', ''#N/A N/A'', ''#NA'', ''-1.#IND'', ''-1.#QNAN'', ''-NaN'', ''-nan'',
      ''1.#IND'', ''1.#QNAN'', ''<NA>'', ''N/A'', ''NA'', ''NULL'', ''NaN'', ''None'', ''n/a'',
      ''nan'', ''null'']"

type_synonym inference = "string list \<Rightarrow> (string \<Rightarrow> string) option"

definition read_cell :: "inference \<Rightarrow> string list \<Rightarrow> string \<Rightarrow> cell" where
  "read_cell infer column t =
     (if t \<in> set na_values then Not_str []
      else case infer column of None \<Rightarrow> Str t | Some shown \<Rightarrow> Not_str (shown t))"

definition read_csv :: "inference \<Rightarrow> string position list \<Rightarrow> cell position list" where
  "read_csv infer rows =
     map (\<lambda>r. \<lparr>P_Date = read_cell infer (map P_Date rows) (P_Date r),
                P_Symbol = read_cell infer (map P_Symbol rows) (P_Symbol r),
                P_List = read_cell infer (map P_List rows) (P_List r),
                Entry_Price = Entry_Price r, Quantity = Quantity r,
                Initial_Value = Initial_Value r, Current_Price = Current_Price r,
                Current_Value = Current_Value r, Return_pct = Return_pct r\<rparr>) rows"

fun written :: "cell \<Rightarrow> string" where
  "written (Str s) = s"
| "written (Not_str w) = w"

definition to_csv :: "cell position list \<Rightarrow> string position list" where
  "to_csv df =
     map (\<lambda>r. \<lparr>P_Date = written (P_Date r), P_Symbol = written (P_Symbol r),
                P_List = written (P_List r),
                Entry_Price = Entry_Price r, Quantity = Quantity r,
                Initial_Value = Initial_Value r, Current_Price = Current_Price r,
                Current_Value = Current_Value r, Return_pct = Return_pct r\<rparr>) df"

datatype py_error = OSError | ReadError

definition CAPITAL_PER_TRADE :: real where
  "CAPITAL_PER_TRADE = 1000"

definition get_todays_portfolio_path :: "string \<Rightarrow> string" where
  "get_todays_portfolio_path today = ''Portfolios/Portfolio_'' @ today @ ''.csv''"

definition focus_lists :: "string list" where
  "focus_lists = [''Simmering Growth'', ''Rockets'', ''Turnarounds'']"

subsection \<open>add_new_positions\<close>

text \<open>What the call prints at its end: the early return on an empty scan, the
  number of positions saved, or that nothing was added.\<close>

datatype add_report = No_New_Stocks | Saved nat | No_New_Positions


text \<open>The loop over the target rows; \<open>portfolio\<close> is the table loaded before the
  loop and \<open>new_entries\<close> the list the loop appends to.  The price is greater than 0
  where the quantity is computed, so that division cannot raise.  A cell of the
  loaded table equals the symbol only if it is a \<open>str\<close>.\<close>

fun add_loop ::
  "string \<Rightarrow> cell position list \<Rightarrow> classified_row list \<Rightarrow> cell position list \<Rightarrow> cell position list" where
  "add_loop today portfolio [] new_entries = new_entries"
| "add_loop today portfolio (row # targets) new_entries =
     (let symbol = Symbol row; price = Price row; list_name = List_label row
      in if fl_isnan price \<or> fl_le price (Fin 0) then add_loop today portfolio targets new_entries
         else
           let quantity = fl_div (Fin CAPITAL_PER_TRADE) price;
               initial_value = fl_mul quantity price
           in if portfolio \<noteq> [] \<and> filter (\<lambda>e. P_Symbol e = Str symbol) portfolio \<noteq> []
              then add_loop today portfolio targets new_entries
              else add_loop today portfolio targets
                     (new_entries @
                      [\<lparr>P_Date = Str today, P_Symbol = Str symbol, P_List = Str list_name,
                        Entry_Price = fl_round 2 price,
                        Quantity = fl_round 4 quantity,
                        Initial_Value = fl_round 2 initial_value,
                        Current_Price = fl_round 2 price,
                        Current_Value = fl_round 2 initial_value,
                        Return_pct = Fin 0\<rparr>]))"

text \<open>\<open>dir_ok\<close>: the directory exists or \<open>os.makedirs\<close> creates it; otherwise
  \<open>ensure_portfolios_dir\<close> raises.\<close>

definition add_new_positions ::
  "inference \<Rightarrow> bool \<Rightarrow> string \<Rightarrow> classified_row list \<Rightarrow> files \<Rightarrow>
   py_error + (files \<times> add_report)" where
  "add_new_positions infer dir_ok today daily_scan_df fs =
     (if \<not> dir_ok then Inl OSError
      else
        let filepath = get_todays_portfolio_path today
        in if daily_scan_df = [] then Inr (fs, No_New_Stocks)
           else
             (case map_of fs filepath of
                Some Unreadable \<Rightarrow> Inl ReadError
              | other \<Rightarrow>
                  let portfolio = (case other of Some (Rows es) \<Rightarrow> read_csv infer es | _ \<Rightarrow> []);
                      targets = filter (\<lambda>r. List_label r \<in> set focus_lists) daily_scan_df;
                      new_entries = add_loop today portfolio targets []
                  in if new_entries \<noteq> []
                     then Inr (AList.update filepath (Rows (to_csv (portfolio @ new_entries))) fs,
                               Saved (length new_entries))
                     else Inr (fs, No_New_Positions)))"

subsection \<open>update_portfolio_values\<close>

text \<open>
  The quote of one symbol: \<open>ticker.fast_info.last_price\<close> and \<open>ticker.info\<close>, each
  of which can raise.  \<open>truthy\<close> is Python's truth value of a price: \<open>None\<close> and zero
  are false, NaN and the infinities are true.
\<close>

record quote =
  last_price :: "fl option attempt"
  quote_info :: "info attempt"

definition truthy :: "fl option \<Rightarrow> bool" where
  "truthy p = (case p of None \<Rightarrow> False | Some (Fin x) \<Rightarrow> x \<noteq> 0 | Some _ \<Rightarrow> True)"

definition fetch_price :: "quote \<Rightarrow> fl option attempt" where
  "fetch_price q =
     (case last_price q of
        Raises \<Rightarrow> Raises
      | Returns price \<Rightarrow>
          if \<not> truthy price
          then (case quote_info q of
                  Raises \<Rightarrow> Raises
                | Returns info \<Rightarrow>
                    Returns (map_option Fin
                      (dict_get info ''currentPrice'' (dict_get info ''regularMarketPrice'' None))))
          else Returns price)"

text \<open>The values of a row of \<open>iterrows()\<close> and the price are Python floats: a
  division by zero raises \<open>ZeroDivisionError\<close>.\<close>

definition py_div :: "fl \<Rightarrow> fl \<Rightarrow> fl attempt" where
  "py_div a b = (if b = Fin 0 then Raises else Returns (fl_div a b))"

text \<open>The loop over \<open>portfolio.iterrows()\<close>.  The bare \<open>except\<close> passes over a row
  when anything in the \<open>try\<close> block raised: \<open>yf.Ticker\<close> on a symbol that is not a
  \<open>str\<close>, the quote, or the division by an initial value of zero, which comes before
  the three assignments.\<close>

fun update_rows ::
  "(string \<Rightarrow> quote) \<Rightarrow> (nat \<times> cell position) list \<Rightarrow> cell position list \<Rightarrow> bool \<Rightarrow>
   cell position list \<times> bool" where
  "update_rows quotes [] portfolio updated = (portfolio, updated)"
| "update_rows quotes ((index, row) # rest) portfolio updated =
     (case P_Symbol row of
        Not_str w \<Rightarrow> update_rows quotes rest portfolio updated
      | Str symbol \<Rightarrow>
          (case fetch_price (quotes symbol) of
             Raises \<Rightarrow> update_rows quotes rest portfolio updated
           | Returns None \<Rightarrow> update_rows quotes rest portfolio updated
           | Returns (Some price) \<Rightarrow>
               if truthy (Some price)
               then
                 (let current_val = fl_mul (Quantity row) price
                  in case py_div (fl_sub current_val (Initial_Value row)) (Initial_Value row) of
                       Raises \<Rightarrow> update_rows quotes rest portfolio updated
                     | Returns ratio \<Rightarrow>
                         let roi = fl_mul ratio (Fin 100)
                         in update_rows quotes rest
                              (portfolio[index := (portfolio ! index)
                                 \<lparr>Current_Price := fl_round 2 price,
                                  Current_Value := fl_round 2 current_val,
                                  Return_pct := fl_round 2 roi\<rparr>])
                              True)
               else update_rows quotes rest portfolio updated))"

text \<open>\<open>Series.sum()\<close> leaves NaN cells out.\<close>

definition pd_sum :: "fl list \<Rightarrow> fl" where
  "pd_sum xs = foldl fl_add (Fin 0) (filter (\<lambda>x. \<not> fl_isnan x) xs)"

text \<open>The loop over the sorted paths, with the two running totals.  A file that
  cannot be read is reported and passed over; an empty table is passed over.\<close>

fun update_files ::
  "inference \<Rightarrow> (string \<Rightarrow> quote) \<Rightarrow> string list \<Rightarrow> files \<Rightarrow> fl \<Rightarrow> fl \<Rightarrow> files \<times> fl \<times> fl" where
  "update_files infer quotes [] fs total_invested_all total_value_all =
     (fs, total_invested_all, total_value_all)"
| "update_files infer quotes (filepath # rest) fs total_invested_all total_value_all =
     (case map_of fs filepath of
        Some (Rows es) \<Rightarrow>
          (let portfolio = read_csv infer es
           in if portfolio = []
              then update_files infer quotes rest fs total_invested_all total_value_all
              else
                (case update_rows quotes (enumerate 0 portfolio) portfolio False of
                   (portfolio', updated) \<Rightarrow>
                     update_files infer quotes rest
                       (if updated then AList.update filepath (Rows (to_csv portfolio')) fs else fs)
                       (fl_add total_invested_all (pd_sum (map Initial_Value portfolio')))
                       (fl_add total_value_all (pd_sum (map Current_Value portfolio')))))
      | _ \<Rightarrow> update_files infer quotes rest fs total_invested_all total_value_all)"

record totals =
  total_invested_all :: fl
  total_value_all :: fl
  total_ret :: fl

text \<open>\<open>glob\<close> lists every file of the directory once.  The result is the directory
  after the call and the grand total printed, \<open>None\<close> when the call returned early
  because there is no portfolio file.\<close>

definition glob_portfolios :: "files \<Rightarrow> string list" where
  "glob_portfolios fs = remdups (map fst fs)"

definition update_portfolio_values ::
  "inference \<Rightarrow> bool \<Rightarrow> (string \<Rightarrow> quote) \<Rightarrow> files \<Rightarrow> py_error + (files \<times> totals option)" where
  "update_portfolio_values infer dir_ok quotes fs =
     (if \<not> dir_ok then Inl OSError
      else
        let files = glob_portfolios fs
        in if files = [] then Inr (fs, None)
           else
             (case update_files infer quotes (sort files) fs (Fin 0) (Fin 0) of
                (fs', invested, val) \<Rightarrow>
                  let ret = (if fl_gt invested (Fin 0)
                             then fl_mul (fl_div (fl_sub val invested) invested) (Fin 100)
                             else Fin 0)
                  in Inr (fs', Some \<lparr>total_invested_all = invested, total_value_all = val,
                                     total_ret = ret\<rparr>)))"

section \<open>The two entry points\<close>

text \<open>
  A script that returns ends with exit status 0; one that lets an exception escape
  ends with status 1.  Neither script calls \<open>sys.exit\<close>.
\<close>

datatype outcome = Returned | Raised

fun exit_status :: "outcome \<Rightarrow> nat" where
  "exit_status Returned = 0"
| "exit_status Raised = 1"

text \<open>
  What a run of the scanner meets: the tickers \<open>get_day_gainers_safe\<close> returns (the
  empty list when the page cannot be fetched or parsed), the market data of each
  ticker, the first day of the year, today's date, whether \<open>Daily_Scans\<close> can be
  written, whether \<open>portfolio_manager\<close> can be imported, whether \<open>Portfolios\<close>
  exists or can be created, the fresh quotes, and how pandas reads text columns.
\<close>

record env =
  gainers :: "string list"
  market :: "string \<Rightarrow> (info \<times> bar list) attempt"
  year_start :: int
  run_date :: string
  scan_dir_ok :: bool
  tracker_available :: bool
  portfolios_dir_ok :: bool
  quotes_of :: "string \<Rightarrow> quote"
  csv_inference :: inference

definition main :: "env \<Rightarrow> files \<Rightarrow> outcome \<times> files" where
  "main e fs =
     (let tickers = gainers e
      in if tickers = [] then (Returned, fs)
         else
           let results_data =
                 List.map_filter (\<lambda>symbol. get_stock_data symbol (year_start e) (market e symbol))
                   tickers
           in if results_data = [] then (Returned, fs)
              else
                let df = classified results_data
                in if \<not> scan_dir_ok e then (Raised, fs)
                   else if \<not> tracker_available e then (Returned, fs)
                   else
                     (case add_new_positions (csv_inference e) (portfolios_dir_ok e) (run_date e) df fs of
                        Inl err \<Rightarrow> (Returned, fs)
                      | Inr (fs1, added) \<Rightarrow>
                          (case update_portfolio_values (csv_inference e) (portfolios_dir_ok e)
                                  (quotes_of e) fs1 of
                             Inl err \<Rightarrow> (Returned, fs1)
                           | Inr (fs2, report) \<Rightarrow> (Returned, fs2))))"

definition portfolio_manager_main ::
  "inference \<Rightarrow> bool \<Rightarrow> (string \<Rightarrow> quote) \<Rightarrow> files \<Rightarrow> outcome \<times> files" where
  "portfolio_manager_main infer dir_ok quotes fs =
     (case update_portfolio_values infer dir_ok quotes fs of
        Inl err \<Rightarrow> (Raised, fs)
      | Inr (fs', report) \<Rightarrow> (Returned, fs'))"

section \<open>Example inputs\<close>

text \<open>A scan row with the given 52-week and monthly returns, and a classified row
  with the given symbol, price and list.\<close>

definition example_row :: "fl \<Rightarrow> fl \<Rightarrow> scan_row" where
  "example_row y m =
     \<lparr>Symbol = ''ABC'', Price = Fin 100, Change_pct = 0, RSI_14 = None,
      Weekly_Ret_pct = Fin 0, Monthly_Ret_pct = m, YTD_Ret_pct = Fin 0, Ret_52W_pct = y\<rparr>"

definition example_target :: "string \<Rightarrow> fl \<Rightarrow> string \<Rightarrow> classified_row" where
  "example_target s p l =
     \<lparr>Symbol = s, Price = p, Change_pct = 0, RSI_14 = None,
      Weekly_Ret_pct = Fin 0, Monthly_Ret_pct = Fin 0, YTD_Ret_pct = Fin 0,
      Ret_52W_pct = Fin 0, List_label = l\<rparr>"

text \<open>A position of ten shares entered at 100, with the given symbol, initial value
  and current value; quotes under which ABC is priced by \<open>fast_info\<close>, XYZ by
  \<open>info\<close> and every other symbol raises; a directory of two files.\<close>

definition example_position :: "string \<Rightarrow> fl \<Rightarrow> fl \<Rightarrow> string position" where
  "example_position s iv cv =
     \<lparr>P_Date = ''2024-01-02'', P_Symbol = s, P_List = ''Rockets'', Entry_Price = Fin 100,
      Quantity = Fin 10, Initial_Value = iv, Current_Price = Fin 100, Current_Value = cv,
      Return_pct = Fin 0\<rparr>"

definition example_quotes :: "string \<Rightarrow> quote" where
  "example_quotes s =
     (if s = ''ABC'' then \<lparr>last_price = Returns (Some (Fin 110)), quote_info = Raises\<rparr>
      else if s = ''XYZ''
      then \<lparr>last_price = Returns None,
            quote_info = Returns [''regularMarketPrice'' \<mapsto> Some 5]\<rparr>
      else \<lparr>last_price = Raises, quote_info = Raises\<rparr>)"

definition example_files :: files where
  "example_files =
     [(''Portfolios/Portfolio_2024-01-03.csv'', Unreadable),
      (''Portfolios/Portfolio_2024-01-02.csv'',
       Rows [example_position ''ABC'' (Fin 1000) (Fin 1000),
             example_position ''Q'' (Fin 1000) (Fin 1000)])]"

text \<open>The directory after a revaluation under these quotes, and the totals printed.\<close>

definition example_files_revalued :: files where
  "example_files_revalued =
     [(''Portfolios/Portfolio_2024-01-03.csv'', Unreadable),
      (''Portfolios/Portfolio_2024-01-02.csv'',
       Rows [(example_position ''ABC'' (Fin 1000) (Fin 1100))
               \<lparr>Current_Price := Fin 110, Return_pct := Fin 10\<rparr>,
             example_position ''Q'' (Fin 1000) (Fin 1000)])]"

definition example_totals :: totals where
  "example_totals = \<lparr>total_invested_all = Fin 2000, total_value_all = Fin 2100, total_ret = Fin 5\<rparr>"

text \<open>A price history whose bars are dated 0, 1, 2, \<dots> and open and close at the
  given prices.\<close>

definition example_bars :: "real list \<Rightarrow> bar list" where
  "example_bars cs = map (\<lambda>(i, c). \<lparr>Date = int i, Open = c, Close = c\<rparr>) (enumerate 0 cs)"

text \<open>An inference that takes a column of boolean words as booleans and any other
  column as text, as pandas does for a column that is not made of numerals.\<close>

definition example_inference :: inference where
  "example_inference column =
     (let present = filter (\<lambda>t. t \<notin> set na_values) column
      in if present \<noteq> [] \<and>
            list_all (\<lambda>t. t \<in> set [''True'', ''TRUE'', ''true'', ''False'', ''FALSE'', ''false''])
              present
         then Some (\<lambda>t. if t \<in> set [''True'', ''TRUE'', ''true''] then ''True'' else ''False'')
         else None)"

text \<open>A run of the scanner on the given tickers: the market data of ABC can be
  fetched, that of every other ticker raises, and nothing else fails.\<close>

definition example_env :: "string list \<Rightarrow> env" where
  "example_env tickers =
     \<lparr>gainers = tickers,
      market = (\<lambda>s. if s = ''ABC''
                    then Returns (Map.empty, example_bars [10, 1, 1, 1, 1, 20]) else Raises),
      year_start = 5, run_date = ''2024-01-02'', scan_dir_ok = True,
      tracker_available = True, portfolios_dir_ok = True, quotes_of = example_quotes,
      csv_inference = example_inference\<rparr>"

section \<open>Auxiliary notions for the metrics\<close>

text \<open>
  The current price \<open>get_stock_data\<close> goes on with, the percentage return of a
  window with denominator price \<open>d\<close> as the source computes and rounds it, and the
  condition that a key of \<open>info\<close> is missing, \<open>None\<close> or zero.
\<close>

definition current_price_of :: "info \<Rightarrow> bar list \<Rightarrow> real" where
  "current_price_of info hist =
     (case dict_get info ''currentPrice'' (dict_get info ''regularMarketPrice'' (Some 0)) of
        None \<Rightarrow> Close (last hist)
      | Some v \<Rightarrow> if v = 0 then Close (last hist) else v)"

definition window_return :: "real \<Rightarrow> real \<Rightarrow> fl" where
  "window_return cp d = fl_round 2 (fl_mul (fl_div (fl_sub (Fin cp) (Fin d)) (Fin d)) (Fin 100))"

definition falsy_entry :: "info \<Rightarrow> string \<Rightarrow> bool" where
  "falsy_entry info k \<longleftrightarrow> info k = None \<or> info k = Some None \<or> info k = Some (Some 0)"

text \<open>
  The RSI as the specification words it: the day-over-day changes of the closes, and
  the simple means of the gains \<open>max(delta, 0)\<close> and of the losses \<open>max(-delta, 0)\<close>
  over the last 14 changes.
\<close>

definition day_changes :: "real list \<Rightarrow> real list" where
  "day_changes closes = map (\<lambda>i. closes ! Suc i - closes ! i) [0..<length closes - 1]"

definition last_14 :: "real list \<Rightarrow> real list" where
  "last_14 ds = drop (length ds - 14) ds"

definition avg_gain_14 :: "real list \<Rightarrow> real" where
  "avg_gain_14 closes = sum_list (map (\<lambda>d. max d 0) (last_14 (day_changes closes))) / 14"

definition avg_loss_14 :: "real list \<Rightarrow> real" where
  "avg_loss_14 closes = sum_list (map (\<lambda>d. max (- d) 0) (last_14 (day_changes closes))) / 14"

text \<open>The gain of the latest day alone.\<close>

definition latest_gain :: "real list \<Rightarrow> real" where
  "latest_gain closes = max (last (day_changes closes)) 0"

section \<open>Auxiliary notions for the ledger\<close>

text \<open>The rows of a file (none when the file does not exist), the table pandas
  reads from it, and the rows as pandas writes them back after reading them.\<close>

definition rows_of :: "files \<Rightarrow> string \<Rightarrow> string position list" where
  "rows_of fs path = (case map_of fs path of Some (Rows es) \<Rightarrow> es | _ \<Rightarrow> [])"




definition new_entry :: "string \<Rightarrow> classified_row \<Rightarrow> string position" where
  "new_entry today row =
     \<lparr>P_Date = today, P_Symbol = Symbol row, P_List = List_label row,
      Entry_Price = fl_round 2 (Price row),
      Quantity = fl_round 4 (fl_div (Fin CAPITAL_PER_TRADE) (Price row)),
      Initial_Value = fl_round 2 (fl_mul (fl_div (Fin CAPITAL_PER_TRADE) (Price row)) (Price row)),
      Current_Price = fl_round 2 (Price row),
      Current_Value = fl_round 2 (fl_mul (fl_div (Fin CAPITAL_PER_TRADE) (Price row)) (Price row)),
      Return_pct = Fin 0\<rparr>"


text \<open>Whether the body of the revaluation loop reaches its three assignments for a
  row, the row after the body, and a file after the loop (it is saved only when some
  row was updated).\<close>

definition gets_update :: "(string \<Rightarrow> quote) \<Rightarrow> cell position \<Rightarrow> bool" where
  "gets_update quotes row =
     (case P_Symbol row of
        Not_str w \<Rightarrow> False
      | Str symbol \<Rightarrow>
          (case fetch_price (quotes symbol) of
             Returns (Some price) \<Rightarrow> truthy (Some price) \<and> Initial_Value row \<noteq> Fin 0
           | _ \<Rightarrow> False))"

definition revalue_row :: "(string \<Rightarrow> quote) \<Rightarrow> cell position \<Rightarrow> cell position" where
  "revalue_row quotes row =
     (case P_Symbol row of
        Not_str w \<Rightarrow> row
      | Str symbol \<Rightarrow>
          (case fetch_price (quotes symbol) of
             Returns (Some price) \<Rightarrow>
               if truthy (Some price) \<and> Initial_Value row \<noteq> Fin 0
               then row\<lparr>Current_Price := fl_round 2 price,
                        Current_Value := fl_round 2 (fl_mul (Quantity row) price),
                        Return_pct := fl_round 2
                          (fl_mul (fl_div (fl_sub (fl_mul (Quantity row) price) (Initial_Value row))
                                     (Initial_Value row)) (Fin 100))\<rparr>
               else row
           | _ \<Rightarrow> row))"

definition revalue_file :: "inference \<Rightarrow> (string \<Rightarrow> quote) \<Rightarrow> ledger_file \<Rightarrow> ledger_file" where
  "revalue_file infer quotes f =
     (case f of
        Unreadable \<Rightarrow> Unreadable
      | Rows es \<Rightarrow>
          if list_ex (gets_update quotes) (read_csv infer es)
          then Rows (to_csv (map (revalue_row quotes) (read_csv infer es)))
          else Rows es)"



text \<open>The sum of a column over the files that can be read, taken in path order.\<close>

definition is_readable :: "files \<Rightarrow> string \<Rightarrow> bool" where
  "is_readable fs path = (case map_of fs path of Some (Rows es) \<Rightarrow> True | _ \<Rightarrow> False)"

definition ledger_sum :: "(string position \<Rightarrow> fl) \<Rightarrow> files \<Rightarrow> fl" where
  "ledger_sum col fs =
     foldl fl_add (Fin 0)
       (map (\<lambda>path. pd_sum (map col (rows_of fs path)))
          (filter (is_readable fs) (sort (glob_portfolios fs))))"

section \<open>Properties of the classifier\<close>

lemma fl_gt_Fin [simp]: "fl_gt (Fin a) (Fin b) = (b < a)"
  by (simp add: fl_gt_def)

lemma fl_ge_Fin [simp]: "fl_ge (Fin a) (Fin b) = (b \<le> a)"
  by (simp add: fl_ge_def)

lemma length_loc_assign: "length (loc_assign idx v col) = length col"
  unfolding loc_assign_def by (induction idx arbitrary: col) auto

lemma nth_loc_assign:
  "i < length col \<Longrightarrow> loc_assign idx v col ! i = (if i \<in> set idx then v else col ! i)"
  unfolding loc_assign_def
proof (induction idx arbitrary: col)
  case Nil
  then show ?case by simp
next
  case (Cons j idx)
  have "length (col[j := v]) = length col" by simp
  with Cons have "fold (\<lambda>i c. c[i := v]) idx (col[j := v]) ! i =
     (if i \<in> set idx then v else col[j := v] ! i)" by metis
  with Cons.prems show ?case by (auto simp: nth_list_update)
qed

lemma set_mask_index: "set (mask_index P df) = {i. i < length df \<and> P (df ! i)}"
  unfolding mask_index_def by auto

lemma loc_assign_Nil: "loc_assign [] v col = col"
  by (simp add: loc_assign_def)

lemma assign_lists_alt:
  "assign_lists df =
     loc_assign (mask_index in_turnarounds df) ''Turnarounds''
       (loc_assign (mask_index in_rockets df) ''Rockets''
          (loc_assign (mask_index in_simmering df) ''Simmering Growth''
             (replicate (length df) ''Other'')))"
  unfolding assign_lists_def Let_def by (simp add: loc_assign_Nil)

lemma length_assign_lists: "length (assign_lists df) = length df"
  by (simp add: assign_lists_alt length_loc_assign)

lemma nth_assign_lists:
  assumes "i < length df"
  shows "assign_lists df ! i =
     (if in_turnarounds (df ! i) then ''Turnarounds''
      else if in_rockets (df ! i) then ''Rockets''
      else if in_simmering (df ! i) then ''Simmering Growth'' else ''Other'')"
  using assms by (simp add: assign_lists_alt nth_loc_assign length_loc_assign set_mask_index)

text \<open>
  C3.  The label that \<open>main\<close> writes into the column \<open>List\<close> for a row depends only on
  the row's 52-week and monthly returns, and is the label of the three rules applied
  in order with a later match overwriting an earlier one.  For finite returns \<open>y\<close>
  and \<open>m\<close> it is Simmering Growth when \<open>10 \<le> y \<le> 20\<close> and \<open>m > 5\<close>, Rockets when
  \<open>y > 50\<close> and \<open>m > 10\<close>, Turnarounds when \<open>y < 0\<close> and \<open>m > 10\<close>, and Other
  otherwise, with exactly these inclusive and exclusive edges.
\<close>

theorem classifier_bucket:
  assumes "i < length df"
  shows "assign_lists df ! i = bucket_spec (Ret_52W_pct (df ! i)) (Monthly_Ret_pct (df ! i)) \<and>
     (\<forall>y m. Ret_52W_pct (df ! i) = Fin y \<and> Monthly_Ret_pct (df ! i) = Fin m \<longrightarrow>
        assign_lists df ! i =
          (if 10 \<le> y \<and> y \<le> 20 \<and> 5 < m then ''Simmering Growth''
           else if 50 < y \<and> 10 < m then ''Rockets''
           else if y < 0 \<and> 10 < m then ''Turnarounds''
           else ''Other''))"
proof -
  have a: "assign_lists df ! i = bucket_spec (Ret_52W_pct (df ! i)) (Monthly_Ret_pct (df ! i))"
    using assms
    by (simp add: nth_assign_lists bucket_spec_def in_simmering_def in_rockets_def
        in_turnarounds_def fl_gt_def fl_ge_def)
  show ?thesis
    unfolding a by (auto simp: bucket_spec_def)
qed

theorem classifier_bucket_witness:
  "(1::nat) < length [example_row (Fin 60) (Fin 11), example_row (Fin 20) (Fin 6),
                     example_row (Fin 50) (Fin 11)] \<and>
   Ret_52W_pct ([example_row (Fin 60) (Fin 11), example_row (Fin 20) (Fin 6),
                 example_row (Fin 50) (Fin 11)] ! 1) = Fin 20 \<and>
   Monthly_Ret_pct ([example_row (Fin 60) (Fin 11), example_row (Fin 20) (Fin 6),
                     example_row (Fin 50) (Fin 11)] ! 1) = Fin 6 \<and>
   assign_lists [example_row (Fin 60) (Fin 11), example_row (Fin 20) (Fin 6),
                 example_row (Fin 50) (Fin 11)] ! 1 = ''Simmering Growth''"
  using classifier_bucket [of 1 "[example_row (Fin 60) (Fin 11), example_row (Fin 20) (Fin 6),
                     example_row (Fin 50) (Fin 11)]"]
  by (simp add: example_row_def bucket_spec_def)

section \<open>Properties of the ledger\<close>


subsection \<open>Reading and writing a file\<close>

lemma length_read_csv [simp]: "length (read_csv infer rows) = length rows"
  by (simp add: read_csv_def)

lemma length_to_csv [simp]: "length (to_csv df) = length df"
  by (simp add: to_csv_def)

lemma read_csv_Nil [simp]: "read_csv infer [] = []"
  by (simp add: read_csv_def)

lemma read_csv_eq_Nil [simp]: "read_csv infer rows = [] \<longleftrightarrow> rows = []"
  by (simp add: read_csv_def)

lemma to_csv_Nil [simp]: "to_csv [] = []"
  by (simp add: to_csv_def)


lemma read_csv_numbers:
  "map Entry_Price (read_csv infer rows) = map Entry_Price rows"
  "map Quantity (read_csv infer rows) = map Quantity rows"
  "map Initial_Value (read_csv infer rows) = map Initial_Value rows"
  "map Current_Price (read_csv infer rows) = map Current_Price rows"
  "map Current_Value (read_csv infer rows) = map Current_Value rows"
  "map Return_pct (read_csv infer rows) = map Return_pct rows"
  by (simp_all add: read_csv_def comp_def)

lemma to_csv_numbers:
  "map Entry_Price (to_csv df) = map Entry_Price df"
  "map Quantity (to_csv df) = map Quantity df"
  "map Initial_Value (to_csv df) = map Initial_Value df"
  "map Current_Price (to_csv df) = map Current_Price df"
  "map Current_Value (to_csv df) = map Current_Value df"
  "map Return_pct (to_csv df) = map Return_pct df"
  by (simp_all add: to_csv_def comp_def)

lemma read_csv_symbols:
  "map P_Symbol (read_csv infer rows) =
     map (read_cell infer (map P_Symbol rows)) (map P_Symbol rows)"
  by (simp add: read_csv_def comp_def)

lemma to_csv_texts:
  "map P_Date (to_csv df) = map (written \<circ> P_Date) df"
  "map P_Symbol (to_csv df) = map (written \<circ> P_Symbol) df"
  "map P_List (to_csv df) = map (written \<circ> P_List) df"
  by (simp_all add: to_csv_def comp_def)



subsection \<open>The loop of add_new_positions\<close>








subsection \<open>The loops of update_portfolio_values\<close>




lemma no_update_same: "\<not> gets_update quotes row \<Longrightarrow> revalue_row quotes row = row"
  by (auto simp: gets_update_def revalue_row_def split: cell.splits attempt.splits option.splits)


lemma revalue_row_identity:
  "P_Date (revalue_row quotes row) = P_Date row \<and>
   P_Symbol (revalue_row quotes row) = P_Symbol row \<and>
   P_List (revalue_row quotes row) = P_List row \<and>
   Entry_Price (revalue_row quotes row) = Entry_Price row \<and>
   Quantity (revalue_row quotes row) = Quantity row \<and>
   Initial_Value (revalue_row quotes row) = Initial_Value row"
  by (simp add: revalue_row_def split: cell.splits attempt.splits option.splits)

lemma update_rows_miss:
  "\<not> gets_update quotes row \<Longrightarrow>
   update_rows quotes ((index, row) # rest) portfolio updated =
     update_rows quotes rest portfolio updated"
  by (auto simp: gets_update_def py_div_def Let_def
      split: cell.splits attempt.splits option.splits)

lemma update_rows_hit:
  "gets_update quotes row \<Longrightarrow> portfolio ! index = row \<Longrightarrow>
   update_rows quotes ((index, row) # rest) portfolio updated =
     update_rows quotes rest (portfolio[index := revalue_row quotes row]) True"
  by (auto simp: gets_update_def revalue_row_def py_div_def Let_def
      split: cell.splits attempt.splits option.splits)

lemma update_rows_eq:
  "length done = k \<Longrightarrow>
   update_rows quotes (enumerate k rest) (done @ rest) u =
     (done @ map (revalue_row quotes) rest, u \<or> list_ex (gets_update quotes) rest)"
proof (induction rest arbitrary: "done" k u)
  case Nil
  then show ?case by simp
next
  case (Cons r rest)
  have len: "length (done @ [x]) = Suc k" for x :: "cell position"
    using Cons.prems by simp
  have upd: "(done @ r # rest)[k := x] = (done @ [x]) @ rest" for x
    using Cons.prems by (simp add: list_update_append)
  have nth: "(done @ r # rest) ! k = r"
    using Cons.prems by (simp add: nth_append)
  show ?case
  proof (cases "gets_update quotes r")
    case False
    then have "update_rows quotes (enumerate k (r # rest)) (done @ r # rest) u =
               update_rows quotes (enumerate (Suc k) rest) ((done @ [r]) @ rest) u"
      by (simp add: update_rows_miss del: update_rows.simps)
    also have "\<dots> = ((done @ [r]) @ map (revalue_row quotes) rest,
        u \<or> list_ex (gets_update quotes) rest)"
      by (rule Cons.IH [OF len])
    finally show ?thesis using False by (simp add: no_update_same)
  next
    case True
    then have "update_rows quotes (enumerate k (r # rest)) (done @ r # rest) u =
          update_rows quotes (enumerate (Suc k) rest) ((done @ [revalue_row quotes r]) @ rest) True"
      by (simp add: update_rows_hit nth upd del: update_rows.simps)
    also have "\<dots> = ((done @ [revalue_row quotes r]) @ map (revalue_row quotes) rest,
        True \<or> list_ex (gets_update quotes) rest)"
      by (rule Cons.IH [OF len])
    finally show ?thesis using True by simp
  qed
qed

lemma update_rows_whole:
  "update_rows quotes (enumerate 0 portfolio) portfolio False =
     (map (revalue_row quotes) portfolio, list_ex (gets_update quotes) portfolio)"
  using update_rows_eq [of "[]" 0 quotes portfolio False] by simp

lemma revalue_unchanged:
  "\<not> list_ex (gets_update quotes) portfolio \<Longrightarrow> map (revalue_row quotes) portfolio = portfolio"
  by (induction portfolio) (auto simp: no_update_same)

lemma fl_add_zero [simp]: "fl_add a (Fin 0) = a"
  by (cases a) auto

lemma pd_sum_Nil [simp]: "pd_sum [] = Fin 0"
  by (simp add: pd_sum_def)


lemma update_files_skip:
  "\<not> is_readable fs p \<Longrightarrow>
   update_files infer quotes (p # rest) fs ti tv = update_files infer quotes rest fs ti tv"
  by (auto simp: is_readable_def split: option.splits ledger_file.splits)

lemma update_files_step:
  assumes "map_of fs p = Some (Rows es)"
  shows "\<exists>fs2. update_files infer quotes (p # rest) fs ti tv =
           update_files infer quotes rest fs2
             (fl_add ti (pd_sum (map Initial_Value (map (revalue_row quotes) (read_csv infer es)))))
             (fl_add tv (pd_sum (map Current_Value (map (revalue_row quotes) (read_csv infer es))))) \<and>
         map_of fs2 = (map_of fs)(p \<mapsto> revalue_file infer quotes (Rows es)) \<and>
         map fst fs2 = map fst fs"
proof (cases "es = []")
  case True
  have "(map_of fs)(p \<mapsto> Rows []) = map_of fs"
    using assms True by (auto simp: fun_eq_iff)
  with assms True show ?thesis
    by (intro exI [of _ fs]) (simp add: revalue_file_def)
next
  case False
  let ?pf = "read_csv infer es"
  let ?pf' = "map (revalue_row quotes) ?pf"
  let ?u = "list_ex (gets_update quotes) ?pf"
  let ?fs2 = "if ?u then AList.update p (Rows (to_csv ?pf')) fs else fs"
  have key: "p \<in> set (map fst fs)"
    using assms by (metis map_of_eq_None_iff option.distinct(1) set_map)
  have m: "map_of ?fs2 = (map_of fs)(p \<mapsto> revalue_file infer quotes (Rows es))"
  proof (cases ?u)
    case True
    then show ?thesis by (simp add: update_conv' revalue_file_def)
  next
    case False
    with assms show ?thesis by (auto simp: fun_eq_iff revalue_file_def)
  qed
  have k: "map fst ?fs2 = map fst fs"
    using key by (simp add: update_keys)
  have "update_files infer quotes (p # rest) fs ti tv =
        update_files infer quotes rest ?fs2 (fl_add ti (pd_sum (map Initial_Value ?pf')))
          (fl_add tv (pd_sum (map Current_Value ?pf')))"
    using assms False by (simp add: update_rows_whole Let_def del: map_map)
  with m k show ?thesis by blast
qed

lemma update_files_eq:
  assumes "distinct ps"
    and "update_files infer quotes ps fs ti tv = (fs', ti', tv')"
  shows "(\<forall>p. map_of fs' p =
            (if p \<in> set ps then map_option (revalue_file infer quotes) (map_of fs p)
             else map_of fs p)) \<and>
         map fst fs' = map fst fs \<and>
         ti' = foldl fl_add ti
                 (map (\<lambda>p. pd_sum (map Initial_Value
                              (map (revalue_row quotes) (read_csv infer (rows_of fs p)))))
                    (filter (is_readable fs) ps)) \<and>
         tv' = foldl fl_add tv
                 (map (\<lambda>p. pd_sum (map Current_Value
                              (map (revalue_row quotes) (read_csv infer (rows_of fs p)))))
                    (filter (is_readable fs) ps))"
  using assms
proof (induction ps arbitrary: fs ti tv)
  case Nil
  then show ?case by simp
next
  case (Cons p ps)
  from Cons.prems have d: "distinct ps" and np: "p \<notin> set ps" by simp_all
  show ?case
  proof (cases "is_readable fs p")
    case False
    from Cons.prems(2) have "update_files infer quotes ps fs ti tv = (fs', ti', tv')"
      unfolding update_files_skip [OF False] .
    from Cons.IH [OF d this] have
      ih: "\<forall>q. map_of fs' q =
            (if q \<in> set ps then map_option (revalue_file infer quotes) (map_of fs q)
             else map_of fs q)"
        "map fst fs' = map fst fs"
        "ti' = foldl fl_add ti
                 (map (\<lambda>p. pd_sum (map Initial_Value
                              (map (revalue_row quotes) (read_csv infer (rows_of fs p)))))
                    (filter (is_readable fs) ps))"
        "tv' = foldl fl_add tv
                 (map (\<lambda>p. pd_sum (map Current_Value
                              (map (revalue_row quotes) (read_csv infer (rows_of fs p)))))
                    (filter (is_readable fs) ps))"
      by blast+
    have "map_option (revalue_file infer quotes) (map_of fs p) = map_of fs p"
      using False by (auto simp: is_readable_def revalue_file_def split: option.splits ledger_file.splits)
    with ih False np show ?thesis by auto
  next
    case True
    then obtain es where es: "map_of fs p = Some (Rows es)"
      by (auto simp: is_readable_def split: option.splits ledger_file.splits)
    let ?pf' = "map (revalue_row quotes) (read_csv infer es)"
    from update_files_step [OF es, of infer quotes ps ti tv] obtain fs2 where
      step: "update_files infer quotes (p # ps) fs ti tv =
           update_files infer quotes ps fs2
             (fl_add ti (pd_sum (map Initial_Value ?pf')))
             (fl_add tv (pd_sum (map Current_Value ?pf')))"
      and m: "map_of fs2 = (map_of fs)(p \<mapsto> revalue_file infer quotes (Rows es))"
      and k: "map fst fs2 = map fst fs"
      by blast
    from step Cons.prems have
      "update_files infer quotes ps fs2 (fl_add ti (pd_sum (map Initial_Value ?pf')))
             (fl_add tv (pd_sum (map Current_Value ?pf'))) = (fs', ti', tv')"
      by simp
    from Cons.IH [OF d this] have
      ih: "\<forall>q. map_of fs' q =
            (if q \<in> set ps then map_option (revalue_file infer quotes) (map_of fs2 q)
             else map_of fs2 q)"
        "map fst fs' = map fst fs2"
        "ti' = foldl fl_add (fl_add ti (pd_sum (map Initial_Value ?pf')))
                 (map (\<lambda>p. pd_sum (map Initial_Value
                              (map (revalue_row quotes) (read_csv infer (rows_of fs2 p)))))
                    (filter (is_readable fs2) ps))"
        "tv' = foldl fl_add (fl_add tv (pd_sum (map Current_Value ?pf')))
                 (map (\<lambda>p. pd_sum (map Current_Value
                              (map (revalue_row quotes) (read_csv infer (rows_of fs2 p)))))
                    (filter (is_readable fs2) ps))"
      by blast+
    have other: "map_of fs2 q = map_of fs q" if "q \<in> set ps" for q
      using that np m by auto
    have r: "filter (is_readable fs2) ps = filter (is_readable fs) ps"
      by (rule filter_cong) (simp_all add: is_readable_def other)
    have ro: "rows_of fs2 q = rows_of fs q" if "q \<in> set ps" for q
      using that by (simp add: rows_of_def other)
    have mi: "map (\<lambda>p. pd_sum (map col (map (revalue_row quotes) (read_csv infer (rows_of fs2 p)))))
                (filter (is_readable fs) ps)
            = map (\<lambda>p. pd_sum (map col (map (revalue_row quotes) (read_csv infer (rows_of fs p)))))
                (filter (is_readable fs) ps)"
      for col :: "cell position \<Rightarrow> fl"
      by (rule map_cong) (simp_all add: ro)
    have rp: "rows_of fs p = es" by (simp add: rows_of_def es)
    have 1: "\<forall>q. map_of fs' q =
            (if q \<in> set (p # ps) then map_option (revalue_file infer quotes) (map_of fs q)
             else map_of fs q)"
      using ih(1) m np es by auto
    have 2: "map fst fs' = map fst fs" using ih(2) k by simp
    have 3: "ti' = foldl fl_add ti
                 (map (\<lambda>p. pd_sum (map Initial_Value
                              (map (revalue_row quotes) (read_csv infer (rows_of fs p)))))
                    (filter (is_readable fs) (p # ps)))"
      using ih(3) True by (simp add: r mi rp del: map_map)
    have 4: "tv' = foldl fl_add tv
                 (map (\<lambda>p. pd_sum (map Current_Value
                              (map (revalue_row quotes) (read_csv infer (rows_of fs p)))))
                    (filter (is_readable fs) (p # ps)))"
      using ih(4) True by (simp add: r mi rp del: map_map)
    from 1 2 3 4 show ?thesis by blast
  qed
qed

lemma glob_portfolios_Nil: "glob_portfolios fs = [] \<longleftrightarrow> fs = []"
  by (simp add: glob_portfolios_def)

lemma set_sorted_glob: "set (glob_portfolios fs) = fst ` set fs"
  by (simp add: glob_portfolios_def)

lemma distinct_sorted_glob: "distinct (sort (glob_portfolios fs))"
  by (simp add: glob_portfolios_def)

lemma update_portfolio_values_files:
  assumes "update_portfolio_values infer dir_ok quotes fs = Inr (fs', rep)"
  shows "(\<forall>p. map_of fs' p = map_option (revalue_file infer quotes) (map_of fs p)) \<and>
         map fst fs' = map fst fs"
proof (cases "fs = []")
  case True
  with assms show ?thesis
    by (auto simp: update_portfolio_values_def glob_portfolios_Nil split: if_splits)
next
  case False
  then have g: "glob_portfolios fs \<noteq> []" by (simp add: glob_portfolios_Nil)
  obtain fs2 ti tv where
    u: "update_files infer quotes (sort (glob_portfolios fs)) fs (Fin 0) (Fin 0) = (fs2, ti, tv)"
    by (metis prod_cases3)
  from assms g u have "fs' = fs2"
    by (auto simp: update_portfolio_values_def Let_def split: if_splits)
  with update_files_eq [OF distinct_sorted_glob u]
  have 1: "\<forall>p. map_of fs' p =
            (if p \<in> fst ` set fs then map_option (revalue_file infer quotes) (map_of fs p)
             else map_of fs p)"
    and 2: "map fst fs' = map fst fs"
    by (simp_all add: set_sorted_glob)
  have "map_of fs' p = map_option (revalue_file infer quotes) (map_of fs p)" for p
  proof (cases "p \<in> fst ` set fs")
    case True
    with 1 show ?thesis by simp
  next
    case False
    then have "map_of fs p = None" by (simp add: map_of_eq_None_iff)
    with 1 False show ?thesis by simp
  qed
  with 2 show ?thesis by blast
qed

lemma revalue_row_numbers:
  "map Entry_Price (map (revalue_row quotes) df) = map Entry_Price df"
  "map Quantity (map (revalue_row quotes) df) = map Quantity df"
  "map Initial_Value (map (revalue_row quotes) df) = map Initial_Value df"
  by (simp_all add: revalue_row_identity)

lemma rows_of_revalued:
  assumes "\<forall>p. map_of fs' p = map_option (revalue_file infer quotes) (map_of fs p)"
  shows "is_readable fs' p = is_readable fs p"
    and "rows_of fs' p = rows_of fs p \<and>
           map (revalue_row quotes) (read_csv infer (rows_of fs p)) = read_csv infer (rows_of fs p) \<or>
         rows_of fs' p = to_csv (map (revalue_row quotes) (read_csv infer (rows_of fs p)))"
proof -
  show "is_readable fs' p = is_readable fs p"
    using assms
    by (auto simp: is_readable_def revalue_file_def split: option.splits ledger_file.splits)
  show "rows_of fs' p = rows_of fs p \<and>
           map (revalue_row quotes) (read_csv infer (rows_of fs p)) = read_csv infer (rows_of fs p) \<or>
         rows_of fs' p = to_csv (map (revalue_row quotes) (read_csv infer (rows_of fs p)))"
  proof (cases "map_of fs p")
    case None
    with assms show ?thesis by (simp add: rows_of_def)
  next
    case (Some f)
    show ?thesis
    proof (cases f)
      case Unreadable
      with Some assms show ?thesis by (simp add: rows_of_def revalue_file_def)
    next
      case (Rows es)
      show ?thesis
      proof (cases "list_ex (gets_update quotes) (read_csv infer es)")
        case True
        with Some Rows assms show ?thesis by (simp add: rows_of_def revalue_file_def)
      next
        case False
        then have "map (revalue_row quotes) (read_csv infer es) = read_csv infer es"
          by (rule revalue_unchanged)
        with False Some Rows assms show ?thesis by (simp add: rows_of_def revalue_file_def)
      qed
    qed
  qed
qed

lemma rows_of_revalued_numbers:
  assumes "\<forall>p. map_of fs' p = map_option (revalue_file infer quotes) (map_of fs p)"
  shows "map Entry_Price (rows_of fs' p) = map Entry_Price (rows_of fs p)"
    and "map Quantity (rows_of fs' p) = map Quantity (rows_of fs p)"
    and "map Initial_Value (rows_of fs' p) = map Initial_Value (rows_of fs p)"
    and "map Initial_Value (rows_of fs' p) =
           map Initial_Value (map (revalue_row quotes) (read_csv infer (rows_of fs p)))"
    and "map Current_Value (rows_of fs' p) =
           map Current_Value (map (revalue_row quotes) (read_csv infer (rows_of fs p)))"
    and "map Current_Price (rows_of fs' p) =
           map Current_Price (map (revalue_row quotes) (read_csv infer (rows_of fs p)))"
    and "map Return_pct (rows_of fs' p) =
           map Return_pct (map (revalue_row quotes) (read_csv infer (rows_of fs p)))"
    and "length (rows_of fs' p) = length (rows_of fs p)"
  using rows_of_revalued(2) [OF assms, of p]
  by (auto simp: to_csv_numbers revalue_row_numbers read_csv_numbers simp del: map_map)


lemma update_portfolio_values_totals:
  assumes "dir_ok" and "fs \<noteq> []"
  shows "\<exists>fs' t. update_portfolio_values infer dir_ok quotes fs = Inr (fs', Some t) \<and>
           total_invested_all t = ledger_sum Initial_Value fs' \<and>
           total_value_all t = ledger_sum Current_Value fs' \<and>
           total_ret t =
             (if fl_gt (total_invested_all t) (Fin 0)
              then fl_mul (fl_div (fl_sub (total_value_all t) (total_invested_all t))
                             (total_invested_all t)) (Fin 100)
              else Fin 0)"
proof -
  from assms have g: "glob_portfolios fs \<noteq> []" by (simp add: glob_portfolios_Nil)
  obtain fs2 ti tv where
    u: "update_files infer quotes (sort (glob_portfolios fs)) fs (Fin 0) (Fin 0) = (fs2, ti, tv)"
    by (metis prod_cases3)
  let ?ret = "if fl_gt ti (Fin 0) then fl_mul (fl_div (fl_sub tv ti) ti) (Fin 100) else Fin 0"
  let ?t = "\<lparr>total_invested_all = ti, total_value_all = tv, total_ret = ?ret\<rparr>"
  have res: "update_portfolio_values infer dir_ok quotes fs = Inr (fs2, Some ?t)"
    using assms g u by (simp add: update_portfolio_values_def Let_def)
  from update_portfolio_values_files [OF res]
  have m: "\<forall>p. map_of fs2 p = map_option (revalue_file infer quotes) (map_of fs p)"
    and k: "map fst fs2 = map fst fs" by blast+
  have gl: "glob_portfolios fs2 = glob_portfolios fs"
    by (simp add: glob_portfolios_def k)
  have rd: "filter (is_readable fs2) ps = filter (is_readable fs) ps" for ps
    by (rule filter_cong) (simp_all add: rows_of_revalued(1) [OF m])
  have li: "ledger_sum Initial_Value fs2 =
      foldl fl_add (Fin 0)
        (map (\<lambda>p. pd_sum (map Initial_Value (map (revalue_row quotes) (read_csv infer (rows_of fs p)))))
           (filter (is_readable fs) (sort (glob_portfolios fs))))"
    by (simp add: ledger_sum_def gl rd rows_of_revalued_numbers(4) [OF m] del: map_map)
  have lv: "ledger_sum Current_Value fs2 =
      foldl fl_add (Fin 0)
        (map (\<lambda>p. pd_sum (map Current_Value (map (revalue_row quotes) (read_csv infer (rows_of fs p)))))
           (filter (is_readable fs) (sort (glob_portfolios fs))))"
    by (simp add: ledger_sum_def gl rd rows_of_revalued_numbers(5) [OF m] del: map_map)
  from update_files_eq [OF distinct_sorted_glob u]
  have "ti = ledger_sum Initial_Value fs2" and "tv = ledger_sum Current_Value fs2"
    by (simp_all add: li lv del: map_map)
  with res show ?thesis by (intro exI [of _ fs2] exI [of _ ?t]) simp
qed

lemma ledger_sum_invested_kept:
  assumes "update_portfolio_values infer dir_ok quotes fs = Inr (fs', rep)"
  shows "ledger_sum Initial_Value fs' = ledger_sum Initial_Value fs"
proof -
  from update_portfolio_values_files [OF assms]
  have m: "\<forall>p. map_of fs' p = map_option (revalue_file infer quotes) (map_of fs p)"
    and k: "map fst fs' = map fst fs" by blast+
  have gl: "glob_portfolios fs' = glob_portfolios fs"
    by (simp add: glob_portfolios_def k)
  have rd: "filter (is_readable fs') ps = filter (is_readable fs) ps" for ps
    by (rule filter_cong) (simp_all add: rows_of_revalued(1) [OF m])
  show ?thesis
    by (simp add: ledger_sum_def gl rd rows_of_revalued_numbers(3) [OF m] del: map_map)
qed

subsection \<open>Rows created by add_new_positions\<close>











subsection \<open>A second call of add_new_positions\<close>



subsection \<open>Claims about add_new_positions\<close>

text \<open>
  C1.  The claim is that a day's file never holds two entries of one symbol, a row
  being skipped also when its symbol was proposed earlier in the same call.  The loop
  tests a row against the table loaded before the loop only, not against
  \<open>new_entries\<close>: a scan that lists XYZ twice, on a day with no file yet, saves two
  XYZ entries.
\<close>

theorem same_call_duplicate_saved:
  "add_new_positions infer True ''2024-01-02''
     [example_target ''XYZ'' (Fin 10) ''Rockets'', example_target ''XYZ'' (Fin 10) ''Rockets''] [] =
     Inr ([(''Portfolios/Portfolio_2024-01-02.csv'',
            Rows [new_entry ''2024-01-02'' (example_target ''XYZ'' (Fin 10) ''Rockets''),
                  new_entry ''2024-01-02'' (example_target ''XYZ'' (Fin 10) ''Rockets'')])],
          Saved 2) \<and>
   map P_Symbol
     [new_entry ''2024-01-02'' (example_target ''XYZ'' (Fin 10) ''Rockets''),
      new_entry ''2024-01-02'' (example_target ''XYZ'' (Fin 10) ''Rockets'')] = [''XYZ'', ''XYZ'']"
  by (simp add: add_new_positions_def get_todays_portfolio_path_def focus_lists_def
      example_target_def new_entry_def to_csv_def Let_def fl_of_sign_def
      CAPITAL_PER_TRADE_def round_nd_def round_half_even_def)







subsection \<open>Claims about update_portfolio_values\<close>


lemma example_revaluation:
  "update_portfolio_values example_inference True example_quotes example_files =
     Inr (example_files_revalued, Some example_totals)"
  by code_simp


text \<open>
  C8 (amended).  The claim is that every call recomputes the aggregate return as
  \<open>(\<Sigma>currentValue - \<Sigma>initialValue) / \<Sigma>initialValue \<times> 100\<close>, and reports 0 when
  \<open>\<Sigma>initialValue = 0\<close>.  The code returns early, reporting no total, when there is
  no portfolio file, and its guard is \<open>total_invested_all > 0\<close>.  When the directory
  can be used and holds at least one file, the call returns the totals: the invested
  total and the value total are the sums of the two columns over the files that can
  be read (an unreadable file is left out, a NaN cell is skipped), taken after the
  revaluation and starting from 0 in each call; the invested total is the same
  before and after; the return is the formula when the invested total is greater
  than 0 and is 0 otherwise.
\<close>

theorem aggregate_return:
  assumes "dir_ok" and "fs \<noteq> []"
  shows "\<exists>fs' t. update_portfolio_values infer dir_ok quotes fs = Inr (fs', Some t) \<and>
           total_invested_all t = ledger_sum Initial_Value fs' \<and>
           total_invested_all t = ledger_sum Initial_Value fs \<and>
           total_value_all t = ledger_sum Current_Value fs' \<and>
           total_ret t =
             (if fl_gt (ledger_sum Initial_Value fs') (Fin 0)
              then fl_mul (fl_div (fl_sub (ledger_sum Current_Value fs') (ledger_sum Initial_Value fs'))
                             (ledger_sum Initial_Value fs')) (Fin 100)
              else Fin 0) \<and>
           (\<forall>a b. ledger_sum Initial_Value fs' = Fin a \<and> ledger_sum Current_Value fs' = Fin b \<longrightarrow>
              total_ret t = Fin (if 0 < a then (b - a) / a * 100 else 0))"
proof -
  from update_portfolio_values_totals [OF assms, of infer quotes]
  obtain fs' t where u: "update_portfolio_values infer dir_ok quotes fs = Inr (fs', Some t)"
    and i: "total_invested_all t = ledger_sum Initial_Value fs'"
    and v: "total_value_all t = ledger_sum Current_Value fs'"
    and r: "total_ret t =
             (if fl_gt (total_invested_all t) (Fin 0)
              then fl_mul (fl_div (fl_sub (total_value_all t) (total_invested_all t))
                             (total_invested_all t)) (Fin 100)
              else Fin 0)"
    by blast
  have k: "ledger_sum Initial_Value fs' = ledger_sum Initial_Value fs"
    by (rule ledger_sum_invested_kept [OF u])
  have fin: "total_ret t = Fin (if 0 < a then (b - a) / a * 100 else 0)"
    if "ledger_sum Initial_Value fs' = Fin a \<and> ledger_sum Current_Value fs' = Fin b" for a b
    using that r i v by (auto simp: fl_sub_def)
  from u i v r k fin show ?thesis
    by (intro exI [of _ fs'] exI [of _ t]) auto
qed

theorem aggregate_return_counterexample:
  "update_portfolio_values example_inference True example_quotes [] = Inr ([], None) \<and>
   update_portfolio_values example_inference True example_quotes
     [(''Portfolios/Portfolio_2024-01-02.csv'',
       Rows [example_position ''Q'' (Fin (- 1000)) (Fin (- 900))])] =
     Inr ([(''Portfolios/Portfolio_2024-01-02.csv'',
            Rows [example_position ''Q'' (Fin (- 1000)) (Fin (- 900))])],
          Some \<lparr>total_invested_all = Fin (- 1000), total_value_all = Fin (- 900),
                 total_ret = Fin 0\<rparr>) \<and>
   fl_mul (fl_div (fl_sub (Fin (- 900)) (Fin (- 1000))) (Fin (- 1000))) (Fin 100) = Fin (- 10)"
  by code_simp

theorem aggregate_return_witness:
  "example_files \<noteq> [] \<and>
   ledger_sum Initial_Value example_files = Fin 2000 \<and>
   (\<exists>fs' t. update_portfolio_values example_inference True example_quotes example_files =
              Inr (fs', Some t) \<and>
      ledger_sum Initial_Value fs' = Fin 2000 \<and> ledger_sum Current_Value fs' = Fin 2100 \<and>
      total_ret t = Fin 5)"
proof -
  have ne: "example_files \<noteq> []" by (simp add: example_files_def)
  have s: "ledger_sum Initial_Value example_files = Fin 2000"
    by code_simp
  from aggregate_return [OF TrueI ne, of example_inference example_quotes]
  obtain fs' t where
    u: "update_portfolio_values example_inference True example_quotes example_files = Inr (fs', Some t)"
    and i: "total_invested_all t = ledger_sum Initial_Value fs'"
    and i0: "total_invested_all t = ledger_sum Initial_Value example_files"
    and v: "total_value_all t = ledger_sum Current_Value fs'"
    and f: "\<And>a b. ledger_sum Initial_Value fs' = Fin a \<and> ledger_sum Current_Value fs' = Fin b \<Longrightarrow>
              total_ret t = Fin (if 0 < a then (b - a) / a * 100 else 0)"
    by blast
  from u example_revaluation have t: "t = example_totals" and fs': "fs' = example_files_revalued"
    by simp_all
  have a: "ledger_sum Initial_Value fs' = Fin 2000" using i i0 s by simp
  have b: "ledger_sum Current_Value fs' = Fin 2100"
    using v t by (simp add: example_totals_def)
  from f [of 2000 2100] a b have "total_ret t = Fin 5" by simp
  with ne s u a b show ?thesis by blast
qed

section \<open>Properties of the metrics\<close>


lemma round_nd_zero [simp]: "round_nd n 0 = 0"
  by (simp add: round_nd_def round_half_even_def)

lemma get_stock_data_eq:
  assumes "hist \<noteq> []"
  shows "get_stock_data tick soy (Returns (info, hist)) =
     (case dict_get info ''regularMarketChangePercent'' (Some 0) of
        None \<Rightarrow> None
      | Some change \<Rightarrow>
          Some \<lparr>Symbol = tick,
                Price = Fin (current_price_of info hist),
                Change_pct = change * 100,
                RSI_14 = (if 15 \<le> length hist \<and> \<not> fl_isnan (rsi_14 (map Close hist))
                          then Some (fl_round 2 (rsi_14 (map Close hist))) else None),
                Weekly_Ret_pct =
                  (if 6 \<le> length hist
                   then window_return (current_price_of info hist) (Close (hist ! (length hist - 6)))
                   else Fin 0),
                Monthly_Ret_pct =
                  (if 22 \<le> length hist
                   then window_return (current_price_of info hist) (Close (hist ! (length hist - 22)))
                   else Fin 0),
                YTD_Ret_pct =
                  (case filter (\<lambda>b. soy \<le> Date b) hist of
                     [] \<Rightarrow> Fin 0
                   | b # _ \<Rightarrow> window_return (current_price_of info hist) (Open b)),
                Ret_52W_pct = window_return (current_price_of info hist) (Close (hist ! 0))\<rparr>)"
proof -
  have l: "last (map Close hist) = Close (last hist)"
    using assms by (simp add: last_map)
  have n: "0 < length hist" using assms by simp
  show ?thesis
    using assms n
    by (simp add: get_stock_data_def Let_def current_price_of_def window_return_def l
        split: option.splits list.splits)
qed


lemma diff_eq:
  assumes "closes \<noteq> []"
  shows "diff closes = None # map Some (day_changes closes)"
proof -
  from assms obtain x ys where c: "closes = x # ys" by (cases closes) auto
  have "map (\<lambda>(a, b). Some (b - a)) (zip (x # ys) ys) = map Some (day_changes (x # ys))"
    by (rule nth_equalityI) (simp_all add: day_changes_def)
  then show ?thesis by (simp add: diff_def c)
qed

lemma where_pos_diff: "where_pos (None # map Some ds) = 0 # map (\<lambda>d. max d 0) ds"
  by (simp add: where_pos_def max_def)

lemma neg_where_neg_diff: "neg_where_neg (None # map Some ds) = 0 # map (\<lambda>d. max (- d) 0) ds"
  by (simp add: neg_where_neg_def max_def)

lemma length_rolling_mean [simp]: "length (rolling_mean w xs) = length xs"
  by (simp add: rolling_mean_def)

lemma last_rolling_mean:
  assumes "w \<le> length xs" and "0 < w"
  shows "last (rolling_mean w xs) = Some (sum_list (drop (length xs - w) xs) / real w)"
proof -
  from assms have n: "0 < length xs" by linarith
  then have "[0..<length xs] \<noteq> []" by simp
  then have "last (rolling_mean w xs) =
      (\<lambda>i. if i + 1 < w then None
            else Some (sum_list (take w (drop (i + 1 - w) xs)) / real w)) (last [0..<length xs])"
    unfolding rolling_mean_def by (rule last_map)
  moreover have "last [0..<length xs] = length xs - 1"
    using n by (simp add: last_upt)
  moreover have "take w (drop (length xs - w) xs) = drop (length xs - w) xs"
    using assms by simp
  ultimately show ?thesis using assms n by simp
qed

lemma last_series_div:
  assumes "length gain = length loss" and "gain \<noteq> []"
  shows "last (series_div gain loss) =
     (case (last gain, last loss) of (Some a, Some b) \<Rightarrow> fl_div (Fin a) (Fin b) | _ \<Rightarrow> NaN)"
proof -
  from assms have l: "loss \<noteq> []" by auto
  from assms l have z: "zip gain loss \<noteq> []" by (cases gain; cases loss) auto
  have "last (zip gain loss) = (last gain, last loss)"
    using assms l by (simp add: last_zip)
  with z show ?thesis
    unfolding series_div_def by (simp add: last_map)
qed

lemma drop_tail_14:
  assumes "15 \<le> Suc (length ds)"
  shows "drop (Suc (length ds) - 14) (0 # map f ds) = map f (last_14 ds)"
proof -
  from assms have "Suc (length ds) - 14 = Suc (length ds - 14)" by simp
  then show ?thesis by (simp add: last_14_def drop_map)
qed

lemma length_day_changes [simp]: "length (day_changes closes) = length closes - 1"
  by (simp add: day_changes_def)

lemma avg_gain_14_nonneg: "0 \<le> avg_gain_14 closes"
  unfolding avg_gain_14_def by (intro divide_nonneg_pos sum_list_nonneg) auto

lemma avg_loss_14_nonneg: "0 \<le> avg_loss_14 closes"
  unfolding avg_loss_14_def by (intro divide_nonneg_pos sum_list_nonneg) auto

lemma rsi_14_means:
  assumes "15 \<le> length closes"
  shows "last (rolling_mean 14 (where_pos (diff closes))) = Some (avg_gain_14 closes)"
    and "last (rolling_mean 14 (neg_where_neg (diff closes))) = Some (avg_loss_14 closes)"
proof -
  let ?ds = "day_changes closes"
  from assms have ne: "closes \<noteq> []" by auto
  from assms have l: "Suc (length ?ds) = length closes" by simp
  from assms l have l15: "15 \<le> Suc (length ?ds)" by simp
  have g: "where_pos (diff closes) = 0 # map (\<lambda>d. max d 0) ?ds"
    by (simp only: diff_eq [OF ne] where_pos_diff)
  have "last (rolling_mean 14 (0 # map (\<lambda>d. max d 0) ?ds)) =
        Some (sum_list (drop (length (0 # map (\<lambda>d. max d 0) ?ds) - 14) (0 # map (\<lambda>d. max d 0) ?ds)) / real 14)"
    using assms by (intro last_rolling_mean) simp_all
  also have "length (0 # map (\<lambda>d. max d 0) ?ds) = Suc (length ?ds)" by simp
  also have "drop (Suc (length ?ds) - 14) (0 # map (\<lambda>d. max d 0) ?ds) = map (\<lambda>d. max d 0) (last_14 ?ds)"
    by (rule drop_tail_14 [OF l15])
  finally show "last (rolling_mean 14 (where_pos (diff closes))) = Some (avg_gain_14 closes)"
    by (simp add: g avg_gain_14_def)
  have n: "neg_where_neg (diff closes) = 0 # map (\<lambda>d. max (- d) 0) ?ds"
    by (simp only: diff_eq [OF ne] neg_where_neg_diff)
  have "last (rolling_mean 14 (0 # map (\<lambda>d. max (- d) 0) ?ds)) =
        Some (sum_list (drop (length (0 # map (\<lambda>d. max (- d) 0) ?ds) - 14) (0 # map (\<lambda>d. max (- d) 0) ?ds)) / real 14)"
    using assms by (intro last_rolling_mean) simp_all
  also have "length (0 # map (\<lambda>d. max (- d) 0) ?ds) = Suc (length ?ds)" by simp
  also have "drop (Suc (length ?ds) - 14) (0 # map (\<lambda>d. max (- d) 0) ?ds) = map (\<lambda>d. max (- d) 0) (last_14 ?ds)"
    by (rule drop_tail_14 [OF l15])
  finally show "last (rolling_mean 14 (neg_where_neg (diff closes))) = Some (avg_loss_14 closes)"
    by (simp add: n avg_loss_14_def)
qed

lemma length_diff [simp]: "length (diff closes) = length closes"
  by (cases closes) (simp_all add: diff_def)

lemma rsi_14_eq:
  assumes "15 \<le> length closes"
  shows "rsi_14 closes =
     (if avg_loss_14 closes = 0 then (if 0 < avg_gain_14 closes then Fin 100 else Fin 50)
      else Fin (100 - 100 / (1 + avg_gain_14 closes / avg_loss_14 closes)))"
proof -
  let ?gain = "rolling_mean 14 (where_pos (diff closes))"
  let ?loss = "rolling_mean 14 (neg_where_neg (diff closes))"
  let ?G = "avg_gain_14 closes" and ?L = "avg_loss_14 closes"
  have len: "length ?gain = length ?loss"
    by (simp add: where_pos_def neg_where_neg_def)
  have ne: "?gain \<noteq> []"
    using assms by (auto simp: where_pos_def rolling_mean_def)
  then have ne2: "series_div ?gain ?loss \<noteq> []"
    using len by (cases ?gain; cases ?loss) (auto simp: series_div_def)
  have rs: "last (series_div ?gain ?loss) = fl_div (Fin ?G) (Fin ?L)"
    by (simp add: last_series_div [OF len ne] rsi_14_means [OF assms])
  have raw: "fl_sub (Fin 100) (last (map (\<lambda>r. fl_div (Fin 100) (fl_add (Fin 1) r)) (series_div ?gain ?loss)))
      = fl_sub (Fin 100) (fl_div (Fin 100) (fl_add (Fin 1) (fl_div (Fin ?G) (Fin ?L))))"
    by (simp add: last_map [OF ne2] rs)
  have G: "0 \<le> ?G" by (rule avg_gain_14_nonneg)
  have L: "0 \<le> ?L" by (rule avg_loss_14_nonneg)
  show ?thesis
  proof (cases "?L = 0")
    case True
    show ?thesis
    proof (cases "0 < ?G")
      case g: True
      then show ?thesis
        unfolding rsi_14_def Let_def raw
        by (simp add: True fl_sub_def fl_of_sign_def rsi_14_means [OF assms])
    next
      case False
      with G have "?G = 0" by simp
      then show ?thesis
        unfolding rsi_14_def Let_def raw
        by (simp add: True fl_sub_def fl_of_sign_def rsi_14_means [OF assms])
    qed
  next
    case False
    with L have pos: "0 < ?L" by simp
    with G have "0 \<le> ?G / ?L" by simp
    then have "1 + ?G / ?L \<noteq> 0" by linarith
    then show ?thesis
      unfolding rsi_14_def Let_def raw
      using False by (simp add: fl_sub_def)
  qed
qed


lemma round_half_even_bounds: "\<lfloor>x\<rfloor> \<le> round_half_even x \<and> round_half_even x \<le> \<lceil>x\<rceil>"
proof -
  have "\<lfloor>x\<rfloor> + 1 \<le> \<lceil>x\<rceil>" if "0 < x - of_int \<lfloor>x\<rfloor>"
  proof -
    from that have "of_int \<lfloor>x\<rfloor> < x" by simp
    then have "\<lfloor>x\<rfloor> < \<lceil>x\<rceil>" by (simp add: less_ceiling_iff)
    then show ?thesis by simp
  qed
  then show ?thesis
    by (auto simp: round_half_even_def Let_def)
qed

lemma round_nd_range:
  assumes "0 \<le> x" and "x \<le> 100"
  shows "0 \<le> round_nd 2 x \<and> round_nd 2 x \<le> 100"
proof -
  let ?y = "x * 10 ^ 2"
  from assms have y0: "0 \<le> ?y" by simp
  from assms have y1: "?y \<le> 10000" by simp
  from y0 have "0 \<le> \<lfloor>?y\<rfloor>" by simp
  with round_half_even_bounds [of ?y] have lo: "0 \<le> round_half_even ?y" by linarith
  from y1 have "\<lceil>?y\<rceil> \<le> 10000" by (simp add: ceiling_le_iff)
  with round_half_even_bounds [of ?y] have hi: "round_half_even ?y \<le> 10000" by linarith
  from lo have "(0::real) \<le> of_int (round_half_even ?y)" by simp
  moreover from hi have "(of_int (round_half_even ?y) :: real) \<le> 10000"
    by (metis of_int_le_iff of_int_numeral)
  ultimately show ?thesis by (simp add: round_nd_def)
qed

lemma round_nd_100 [simp]: "round_nd 2 100 = 100" "round_nd 2 50 = 50"
  by (simp_all add: round_nd_def round_half_even_def)

lemma rsi_quotient_range:
  assumes "0 \<le> G" and "0 < L"
  shows "0 \<le> 100 - 100 / (1 + G / L) \<and> 100 - 100 / (1 + G / L) \<le> (100::real)"
proof -
  define q where "q = 1 + G / L"
  from assms have q: "1 \<le> q" by (simp add: q_def)
  then have "0 < q" by linarith
  then have "100 / q \<le> 100" using q by (simp add: pos_divide_le_eq)
  moreover have "0 \<le> 100 / q" using \<open>0 < q\<close> by simp
  ultimately show ?thesis unfolding q_def by simp
qed

lemma get_stock_data_Some_hist:
  "get_stock_data tick soy (Returns (info, hist)) = Some row \<Longrightarrow> hist \<noteq> []"
  by (auto simp: get_stock_data_def)



lemma get_stock_data_None_iff:
  "get_stock_data tick soy (Returns (info, hist)) = None \<longleftrightarrow>
     hist = [] \<or> info ''regularMarketChangePercent'' = Some None"
proof (cases "hist = []")
  case True
  then show ?thesis by (simp add: get_stock_data_def)
next
  case False
  then show ?thesis
    by (auto simp: get_stock_data_eq dict_get_def split: option.splits)
qed

lemma example_bars_row:
  assumes "cs \<noteq> []"
  shows "\<exists>row. get_stock_data tick soy (Returns (Map.empty, example_bars cs)) = Some row"
proof -
  from assms have "example_bars cs \<noteq> []" by (simp add: example_bars_def enumerate_eq_zip)
  then have "get_stock_data tick soy (Returns (Map.empty, example_bars cs)) \<noteq> None"
    by (simp add: get_stock_data_None_iff)
  then show ?thesis by blast
qed

lemma window_return_nonzero:
  "d \<noteq> 0 \<Longrightarrow> window_return cp d = Fin (round_nd 2 ((cp - d) / d * 100))"
  by (simp add: window_return_def fl_sub_def)

lemma window_return_zero:
  "window_return cp 0 = (if 0 < cp then PInf else if cp < 0 then NInf else NaN)"
  by (simp add: window_return_def fl_sub_def fl_of_sign_def)



lemma current_price_of_falsy:
  assumes "falsy_entry info ''currentPrice''" and "falsy_entry info ''regularMarketPrice''"
  shows "current_price_of info hist = Close (last hist)"
  using assms
  by (auto simp: falsy_entry_def current_price_of_def dict_get_def split: option.splits)

lemma current_price_of_given:
  "current_price_of (info(''currentPrice'' \<mapsto> Some v)) hist = (if v = 0 then Close (last hist) else v)"
  by (simp add: current_price_of_def dict_get_def)


subsection \<open>Claims about the metrics\<close>

text \<open>
  C4 (amended).  The claim is that a window whose denominator price is not greater
  than 0 gives the return 0.  The code tests the number of bars only: whenever a row
  is returned, the weekly return is 0 with fewer than 6 bars, the monthly return is 0
  with fewer than 22 bars and the year-to-date return is 0 when no bar falls on or
  after 1 January; when the bar of a window exists, the return is
  \<open>(current - d) / d \<times> 100\<close> rounded to two decimals for every denominator \<open>d \<noteq> 0\<close>, a
  negative one too, and for \<open>d = 0\<close> it is an infinity or NaN, as numpy divides.  No
  division raises: for a history that is not empty a row is returned unless
  \<open>regularMarketChangePercent\<close> is \<open>None\<close>.  With six bars whose first close is 0 and
  a current price of 1, the weekly and the 52-week returns are \<open>+inf\<close>; with a first
  close of -1 they are -200.
\<close>

theorem return_windows:
  "(get_stock_data tick soy (Returns (info, hist)) = None \<longleftrightarrow>
      hist = [] \<or> info ''regularMarketChangePercent'' = Some None) \<and>
   (\<forall>row. get_stock_data tick soy (Returns (info, hist)) = Some row \<longrightarrow>
      (length hist < 6 \<longrightarrow> Weekly_Ret_pct row = Fin 0) \<and>
      (length hist < 22 \<longrightarrow> Monthly_Ret_pct row = Fin 0) \<and>
      (filter (\<lambda>b. soy \<le> Date b) hist = [] \<longrightarrow> YTD_Ret_pct row = Fin 0) \<and>
      (6 \<le> length hist \<longrightarrow>
         Weekly_Ret_pct row =
           window_return (current_price_of info hist) (Close (hist ! (length hist - 6)))) \<and>
      (22 \<le> length hist \<longrightarrow>
         Monthly_Ret_pct row =
           window_return (current_price_of info hist) (Close (hist ! (length hist - 22)))) \<and>
      (\<forall>b rest. filter (\<lambda>b. soy \<le> Date b) hist = b # rest \<longrightarrow>
         YTD_Ret_pct row = window_return (current_price_of info hist) (Open b)) \<and>
      Ret_52W_pct row = window_return (current_price_of info hist) (Close (hist ! 0))) \<and>
   (\<forall>cp d. d \<noteq> 0 \<longrightarrow> window_return cp d = Fin (round_nd 2 ((cp - d) / d * 100))) \<and>
   (\<forall>cp. window_return cp 0 = (if 0 < cp then PInf else if cp < 0 then NInf else NaN))"
proof -
  have rows: "(length hist < 6 \<longrightarrow> Weekly_Ret_pct row = Fin 0) \<and>
      (length hist < 22 \<longrightarrow> Monthly_Ret_pct row = Fin 0) \<and>
      (filter (\<lambda>b. soy \<le> Date b) hist = [] \<longrightarrow> YTD_Ret_pct row = Fin 0) \<and>
      (6 \<le> length hist \<longrightarrow>
         Weekly_Ret_pct row =
           window_return (current_price_of info hist) (Close (hist ! (length hist - 6)))) \<and>
      (22 \<le> length hist \<longrightarrow>
         Monthly_Ret_pct row =
           window_return (current_price_of info hist) (Close (hist ! (length hist - 22)))) \<and>
      (\<forall>b rest. filter (\<lambda>b. soy \<le> Date b) hist = b # rest \<longrightarrow>
         YTD_Ret_pct row = window_return (current_price_of info hist) (Open b)) \<and>
      Ret_52W_pct row = window_return (current_price_of info hist) (Close (hist ! 0))"
    if r: "get_stock_data tick soy (Returns (info, hist)) = Some row" for row
  proof -
    from r have ne: "hist \<noteq> []" by (rule get_stock_data_Some_hist)
    from r get_stock_data_eq [OF ne, of tick soy info] show ?thesis
      by (auto split: option.splits)
  qed
  with get_stock_data_None_iff [of tick soy info hist] window_return_nonzero window_return_zero
  show ?thesis by blast
qed

theorem return_windows_counterexample:
  "get_stock_data ''ABC'' 5 (Returns (Map.empty, example_bars [0, 1, 1, 1, 1, 1])) =
     Some \<lparr>Symbol = ''ABC'', Price = Fin 1, Change_pct = 0, RSI_14 = None,
           Weekly_Ret_pct = PInf, Monthly_Ret_pct = Fin 0, YTD_Ret_pct = Fin 0,
           Ret_52W_pct = PInf\<rparr> \<and>
   get_stock_data ''ABC'' 5 (Returns (Map.empty, example_bars [- 1, 1, 1, 1, 1, 1])) =
     Some \<lparr>Symbol = ''ABC'', Price = Fin 1, Change_pct = 0, RSI_14 = None,
           Weekly_Ret_pct = Fin (- 200), Monthly_Ret_pct = Fin 0, YTD_Ret_pct = Fin 0,
           Ret_52W_pct = Fin (- 200)\<rparr>"
  by code_simp

theorem return_windows_witness:
  "(\<exists>row. get_stock_data ''ABC'' 5 (Returns (Map.empty, example_bars [10, 1, 1, 1, 1, 20])) =
            Some row \<and>
      6 \<le> length (example_bars [10, 1, 1, 1, 1, 20]) \<and>
      length (example_bars [10, 1, 1, 1, 1, 20]) < 22 \<and>
      filter (\<lambda>b. 5 \<le> Date b) (example_bars [10, 1, 1, 1, 1, 20]) =
        [\<lparr>Date = 5, Open = 20, Close = 20\<rparr>] \<and>
      Weekly_Ret_pct row = Fin 100 \<and> Monthly_Ret_pct row = Fin 0 \<and> YTD_Ret_pct row = Fin 0 \<and>
      Ret_52W_pct row = Fin 100) \<and>
   (\<exists>row. get_stock_data ''ABC'' 9 (Returns (Map.empty, example_bars [10, 20])) = Some row \<and>
      length (example_bars [10, 20]) < 6 \<and>
      filter (\<lambda>b. 9 \<le> Date b) (example_bars [10, 20]) = [] \<and>
      Weekly_Ret_pct row = Fin 0 \<and> YTD_Ret_pct row = Fin 0)"
proof -
  let ?h = "example_bars [10, 1, 1, 1, 1, 20]"
  let ?k = "example_bars [10, 20]"
  have h: "?h = [\<lparr>Date = 0, Open = 10, Close = 10\<rparr>, \<lparr>Date = 1, Open = 1, Close = 1\<rparr>,
                 \<lparr>Date = 2, Open = 1, Close = 1\<rparr>, \<lparr>Date = 3, Open = 1, Close = 1\<rparr>,
                 \<lparr>Date = 4, Open = 1, Close = 1\<rparr>, \<lparr>Date = 5, Open = 20, Close = 20\<rparr>]"
    by code_simp
  have k: "?k = [\<lparr>Date = 0, Open = 10, Close = 10\<rparr>, \<lparr>Date = 1, Open = 20, Close = 20\<rparr>]"
    by code_simp
  have cp: "current_price_of Map.empty ?h = 20"
    by (simp add: h current_price_of_def dict_get_def)
  have l6: "6 \<le> length ?h" and l22: "length ?h < 22" by (simp_all add: h)
  have f: "filter (\<lambda>b. 5 \<le> Date b) ?h = [\<lparr>Date = 5, Open = 20, Close = 20\<rparr>]"
    by (simp add: h)
  have k6: "length ?k < 6" by (simp add: k)
  have fk: "filter (\<lambda>b. 9 \<le> Date b) ?k = []" by (simp add: k)
  obtain r where r: "get_stock_data ''ABC'' 5 (Returns (Map.empty, ?h)) = Some r"
    using example_bars_row [of "[10, 1, 1, 1, 1, 20]" "''ABC''" 5] by auto
  obtain q where q: "get_stock_data ''ABC'' 9 (Returns (Map.empty, ?k)) = Some q"
    using example_bars_row [of "[10, 20]" "''ABC''" 9] by auto
  note t = return_windows [of "''ABC''" 5 Map.empty ?h, THEN conjunct2, THEN conjunct1, rule_format, OF r]
  note u = return_windows [of "''ABC''" 9 Map.empty ?k, THEN conjunct2, THEN conjunct1, rule_format, OF q]
  have w: "window_return 20 10 = Fin 100" "window_return 20 20 = Fin 0"
    by (simp_all add: window_return_nonzero round_nd_def round_half_even_def)
  from t l6 l22 f have 1: "Weekly_Ret_pct r = Fin 100 \<and> Monthly_Ret_pct r = Fin 0 \<and>
      YTD_Ret_pct r = Fin 0 \<and> Ret_52W_pct r = Fin 100"
    by (simp add: cp w) (simp add: h w)
  from u k6 fk have 2: "Weekly_Ret_pct q = Fin 0 \<and> YTD_Ret_pct q = Fin 0"
    by simp
  from r l6 l22 f 1 q k6 fk 2 show ?thesis by blast
qed

text \<open>
  C5 (amended).  The claim is that, when the rolling mean of losses is 0, the RSI is
  100 if the latest gain is positive and 50 otherwise.  The code compares the latest
  value of the rolling mean of gains (\<open>gain.iloc[-1]\<close>), not the gain of the latest
  day: for fourteen closes of 1 followed by two closes of 2 the mean of losses is 0
  and the latest day's gain is 0, yet the RSI is 100.  With fewer than 15 bars the RSI
  cell is \<open>'N/A'\<close>.  With at least 15 bars it is a number between 0 and 100: it is
  \<open>100 - 100 / (1 + G / L)\<close> rounded to two decimals, where \<open>G\<close> and \<open>L\<close> are the simple
  means of the gains and of the losses over the last 14 day-over-day changes of the
  close, when \<open>L\<close> is not 0; and when \<open>L\<close> is 0 it is 100 if \<open>G\<close> is positive and 50
  otherwise.
\<close>

theorem rsi_14_policy:
  assumes "get_stock_data tick soy (Returns (info, hist)) = Some row"
  shows "(length hist < 15 \<longrightarrow> RSI_14 row = None) \<and>
         (15 \<le> length hist \<longrightarrow>
            (\<exists>x. RSI_14 row = Some (Fin x) \<and> 0 \<le> x \<and> x \<le> 100) \<and>
            (avg_loss_14 (map Close hist) \<noteq> 0 \<longrightarrow>
               RSI_14 row =
                 Some (Fin (round_nd 2
                   (100 - 100 / (1 + avg_gain_14 (map Close hist) / avg_loss_14 (map Close hist)))))) \<and>
            (avg_loss_14 (map Close hist) = 0 \<longrightarrow>
               RSI_14 row = Some (Fin (if 0 < avg_gain_14 (map Close hist) then 100 else 50))))"
proof -
  let ?G = "avg_gain_14 (map Close hist)" and ?L = "avg_loss_14 (map Close hist)"
  from assms have ne: "hist \<noteq> []" by (rule get_stock_data_Some_hist)
  from assms get_stock_data_eq [OF ne, of tick soy info]
  have r: "RSI_14 row = (if 15 \<le> length hist \<and> \<not> fl_isnan (rsi_14 (map Close hist))
                          then Some (fl_round 2 (rsi_14 (map Close hist))) else None)"
    by (auto split: option.splits)
  have short: "RSI_14 row = None" if "length hist < 15"
    using that r by simp
  have long: "(\<exists>x. RSI_14 row = Some (Fin x) \<and> 0 \<le> x \<and> x \<le> 100) \<and>
            (?L \<noteq> 0 \<longrightarrow> RSI_14 row = Some (Fin (round_nd 2 (100 - 100 / (1 + ?G / ?L))))) \<and>
            (?L = 0 \<longrightarrow> RSI_14 row = Some (Fin (if 0 < ?G then 100 else 50)))"
    if l: "15 \<le> length hist"
  proof (cases "?L = 0")
    case True
    with l r show ?thesis by (simp add: rsi_14_eq)
  next
    case False
    have "0 \<le> ?L" by (rule avg_loss_14_nonneg)
    with False have pos: "0 < ?L" by simp
    have G: "0 \<le> ?G" by (rule avg_gain_14_nonneg)
    from l r False have v: "RSI_14 row = Some (Fin (round_nd 2 (100 - 100 / (1 + ?G / ?L))))"
      by (simp add: rsi_14_eq)
    from rsi_quotient_range [OF G pos]
    have "0 \<le> round_nd 2 (100 - 100 / (1 + ?G / ?L)) \<and> round_nd 2 (100 - 100 / (1 + ?G / ?L)) \<le> 100"
      by (intro round_nd_range) simp_all
    with v False show ?thesis by simp
  qed
  from short long show ?thesis by blast
qed

theorem rsi_14_policy_counterexample:
  "get_stock_data ''ABC'' 20
     (Returns (Map.empty, example_bars [1, 1, 1, 1, 1, 1, 1, 1, 1, 1, 1, 1, 1, 1, 2, 2])) =
     Some \<lparr>Symbol = ''ABC'', Price = Fin 2, Change_pct = 0, RSI_14 = Some (Fin 100),
           Weekly_Ret_pct = Fin 100, Monthly_Ret_pct = Fin 0, YTD_Ret_pct = Fin 0,
           Ret_52W_pct = Fin 100\<rparr> \<and>
   avg_loss_14 [1, 1, 1, 1, 1, 1, 1, 1, 1, 1, 1, 1, 1, 1, 2, 2] = 0 \<and>
   latest_gain [1, 1, 1, 1, 1, 1, 1, 1, 1, 1, 1, 1, 1, 1, 2, 2] = 0"
  by code_simp

theorem rsi_14_policy_witness:
  "(\<exists>row. get_stock_data ''ABC'' 0
            (Returns (Map.empty, example_bars [1, 2, 3, 4, 5, 6, 7, 8, 9, 10, 11, 12, 13, 14, 15,
                                               16, 17, 18, 19, 20])) = Some row \<and>
      15 \<le> length (example_bars [1, 2, 3, 4, 5, 6, 7, 8, 9, 10, 11, 12, 13, 14, 15,
                                     16, 17, 18, 19, 20]) \<and>
      avg_loss_14 [1, 2, 3, 4, 5, 6, 7, 8, 9, 10, 11, 12, 13, 14, 15, 16, 17, 18, 19, 20] = 0 \<and>
      0 < avg_gain_14 [1, 2, 3, 4, 5, 6, 7, 8, 9, 10, 11, 12, 13, 14, 15, 16, 17, 18, 19, 20] \<and>
      RSI_14 row = Some (Fin 100)) \<and>
   (\<exists>row. get_stock_data ''ABC'' 0
            (Returns (Map.empty, example_bars [1, 2, 1, 3, 1, 1, 4, 1, 1, 1, 2, 1, 1, 1, 1, 3])) =
            Some row \<and>
      15 \<le> length (example_bars [1, 2, 1, 3, 1, 1, 4, 1, 1, 1, 2, 1, 1, 1, 1, 3]) \<and>
      avg_loss_14 [1, 2, 1, 3, 1, 1, 4, 1, 1, 1, 2, 1, 1, 1, 1, 3] \<noteq> 0 \<and>
      RSI_14 row = Some (Fin (5333 / 100))) \<and>
   (\<exists>row. get_stock_data ''ABC'' 0 (Returns (Map.empty, example_bars [1, 2, 3, 4, 5, 6])) = Some row \<and>
      length (example_bars [1, 2, 3, 4, 5, 6]) < 15 \<and> RSI_14 row = None)"
proof -
  let ?a = "[1, 2, 3, 4, 5, 6, 7, 8, 9, 10, 11, 12, 13, 14, 15, 16, 17, 18, 19, 20] :: real list"
  let ?b = "[1, 2, 1, 3, 1, 1, 4, 1, 1, 1, 2, 1, 1, 1, 1, 3] :: real list"
  let ?c = "[1, 2, 3, 4, 5, 6] :: real list"
  have ca: "map Close (example_bars ?a) = ?a" and la: "15 \<le> length (example_bars ?a)"
    by (simp_all add: example_bars_def enumerate_eq_zip upt_rec)
  have cb: "map Close (example_bars ?b) = ?b" and lb: "15 \<le> length (example_bars ?b)"
    by (simp_all add: example_bars_def enumerate_eq_zip upt_rec)
  have lc: "length (example_bars ?c) < 15"
    by (simp add: example_bars_def)
  have a0: "avg_loss_14 ?a = 0" by code_simp
  have a1: "0 < avg_gain_14 ?a" by code_simp
  have b0: "avg_loss_14 ?b = 1 / 2" by code_simp
  have b1: "avg_gain_14 ?b = 4 / 7" by code_simp
  obtain ra where ra: "get_stock_data ''ABC'' 0 (Returns (Map.empty, example_bars ?a)) = Some ra"
    using example_bars_row [of ?a "''ABC''" 0] by auto
  obtain rb where rb: "get_stock_data ''ABC'' 0 (Returns (Map.empty, example_bars ?b)) = Some rb"
    using example_bars_row [of ?b "''ABC''" 0] by auto
  obtain rc where rc: "get_stock_data ''ABC'' 0 (Returns (Map.empty, example_bars ?c)) = Some rc"
    using example_bars_row [of ?c "''ABC''" 0] by auto
  from rsi_14_policy [OF ra] la a0 a1 have 1: "RSI_14 ra = Some (Fin 100)"
    by (simp add: ca)
  from rsi_14_policy [OF rb] lb have 2: "RSI_14 rb = Some (Fin (5333 / 100))"
    by (simp add: cb b0 b1 round_nd_def round_half_even_def)
  from rsi_14_policy [OF rc] lc have 3: "RSI_14 rc = None"
    by simp
  from b0 have b0': "avg_loss_14 ?b \<noteq> 0" by simp
  from ra la a0 a1 1 rb lb b0' 2 rc lc 3 show ?thesis by blast
qed



text \<open>
  C10.  When \<open>currentPrice\<close> and \<open>regularMarketPrice\<close> are each missing, \<open>None\<close> or
  zero in \<open>info\<close> and the price history is not empty, \<open>get_stock_data\<close> does not fail
  for that reason (it returns a row unless \<open>regularMarketChangePercent\<close> is \<open>None\<close>),
  and the row is the one computed with the last close as the current price: the
  price column and the weekly, monthly, year-to-date and 52-week returns all use it.
\<close>

theorem last_close_as_current_price:
  assumes "falsy_entry info ''currentPrice''" and "falsy_entry info ''regularMarketPrice''"
    and "hist \<noteq> []"
  shows "(get_stock_data tick soy (Returns (info, hist)) = None \<longleftrightarrow>
            info ''regularMarketChangePercent'' = Some None) \<and>
         get_stock_data tick soy (Returns (info, hist)) =
           get_stock_data tick soy
             (Returns (info(''currentPrice'' \<mapsto> Some (Close (last hist))), hist)) \<and>
         (\<forall>row. get_stock_data tick soy (Returns (info, hist)) = Some row \<longrightarrow>
            Price row = Fin (Close (last hist)) \<and>
            Weekly_Ret_pct row =
              (if 6 \<le> length hist
               then window_return (Close (last hist)) (Close (hist ! (length hist - 6)))
               else Fin 0) \<and>
            Monthly_Ret_pct row =
              (if 22 \<le> length hist
               then window_return (Close (last hist)) (Close (hist ! (length hist - 22)))
               else Fin 0) \<and>
            YTD_Ret_pct row =
              (case filter (\<lambda>b. soy \<le> Date b) hist of
                 [] \<Rightarrow> Fin 0
               | b # _ \<Rightarrow> window_return (Close (last hist)) (Open b)) \<and>
            Ret_52W_pct row = window_return (Close (last hist)) (Close (hist ! 0)))"
proof -
  let ?info' = "info(''currentPrice'' \<mapsto> Some (Close (last hist)))"
  have cp: "current_price_of info hist = Close (last hist)"
    by (rule current_price_of_falsy [OF assms(1,2)])
  have cp': "current_price_of ?info' hist = Close (last hist)"
    by (simp add: current_price_of_given)
  have chg: "dict_get ?info' ''regularMarketChangePercent'' d =
             dict_get info ''regularMarketChangePercent'' d" for d
    by (simp add: dict_get_def)
  have 1: "get_stock_data tick soy (Returns (info, hist)) = None \<longleftrightarrow>
            info ''regularMarketChangePercent'' = Some None"
    using assms(3) by (simp add: get_stock_data_None_iff)
  have 2: "get_stock_data tick soy (Returns (info, hist)) =
           get_stock_data tick soy (Returns (?info', hist))"
    by (simp only: get_stock_data_eq [OF assms(3)] cp cp' chg)
  have 3: "Price row = Fin (Close (last hist)) \<and>
            Weekly_Ret_pct row =
              (if 6 \<le> length hist
               then window_return (Close (last hist)) (Close (hist ! (length hist - 6)))
               else Fin 0) \<and>
            Monthly_Ret_pct row =
              (if 22 \<le> length hist
               then window_return (Close (last hist)) (Close (hist ! (length hist - 22)))
               else Fin 0) \<and>
            YTD_Ret_pct row =
              (case filter (\<lambda>b. soy \<le> Date b) hist of
                 [] \<Rightarrow> Fin 0
               | b # _ \<Rightarrow> window_return (Close (last hist)) (Open b)) \<and>
            Ret_52W_pct row = window_return (Close (last hist)) (Close (hist ! 0))"
    if "get_stock_data tick soy (Returns (info, hist)) = Some row" for row
    using that unfolding get_stock_data_eq [OF assms(3)] cp
    by (auto split: option.splits)
  from 1 2 3 show ?thesis by blast
qed

theorem last_close_as_current_price_witness:
  "falsy_entry [''currentPrice'' \<mapsto> Some 0, ''regularMarketPrice'' \<mapsto> None] ''currentPrice'' \<and>
   falsy_entry [''currentPrice'' \<mapsto> Some 0, ''regularMarketPrice'' \<mapsto> None] ''regularMarketPrice'' \<and>
   example_bars [10, 1, 1, 1, 1, 20] \<noteq> [] \<and>
   (\<exists>row. get_stock_data ''ABC'' 5
      (Returns ([''currentPrice'' \<mapsto> Some 0, ''regularMarketPrice'' \<mapsto> None],
                example_bars [10, 1, 1, 1, 1, 20])) = Some row \<and>
      Price row = Fin 20 \<and> Ret_52W_pct row = Fin 100)"
proof -
  let ?info = "[''currentPrice'' \<mapsto> Some 0, ''regularMarketPrice'' \<mapsto> None] :: info"
  let ?h = "example_bars [10, 1, 1, 1, 1, 20]"
  have h: "?h = [\<lparr>Date = 0, Open = 10, Close = 10\<rparr>, \<lparr>Date = 1, Open = 1, Close = 1\<rparr>,
                 \<lparr>Date = 2, Open = 1, Close = 1\<rparr>, \<lparr>Date = 3, Open = 1, Close = 1\<rparr>,
                 \<lparr>Date = 4, Open = 1, Close = 1\<rparr>, \<lparr>Date = 5, Open = 20, Close = 20\<rparr>]"
    by code_simp
  have a: "falsy_entry ?info ''currentPrice''" by (simp add: falsy_entry_def)
  have b: "falsy_entry ?info ''regularMarketPrice''" by (simp add: falsy_entry_def)
  have c: "?h \<noteq> []" by (simp add: h)
  note t = last_close_as_current_price [OF a b c, of "''ABC''" 5]
  have "?info ''regularMarketChangePercent'' \<noteq> Some None" by simp
  with t [THEN conjunct1] have "get_stock_data ''ABC'' 5 (Returns (?info, ?h)) \<noteq> None"
    by blast
  then obtain row where r: "get_stock_data ''ABC'' 5 (Returns (?info, ?h)) = Some row" by blast
  with t have "Price row = Fin (Close (last ?h)) \<and>
      Ret_52W_pct row = window_return (Close (last ?h)) (Close (?h ! 0))"
    by blast
  then have "Price row = Fin 20 \<and> Ret_52W_pct row = Fin 100"
    by (simp add: h window_return_nonzero round_nd_def round_half_even_def)
  with a b c r show ?thesis by blast
qed


section \<open>Properties of the entry points\<close>

text \<open>
  C9 (amended).  The claim is that the scripts exit non-zero exactly when the
  discovery step yields no candidate symbol.  When \<open>get_day_gainers_safe\<close> returns no
  ticker, \<open>main\<close> prints a message and returns, so the scanner exits with status 0 and
  the directory is untouched.  Both scripts exit with status 0 whenever they run to
  their end, whatever per-symbol fetches fail; the scanner exits non-zero only when at
  least one row was scanned and the snapshot in \<open>Daily_Scans\<close> cannot be written, and
  the tracker only when \<open>Portfolios\<close> cannot be created.
\<close>

theorem exit_status_of_entry_points:
  "(gainers e = [] \<longrightarrow> main e fs = (Returned, fs)) \<and>
   (exit_status (fst (main e fs)) \<noteq> 0 \<longleftrightarrow>
      gainers e \<noteq> [] \<and>
      List.map_filter (\<lambda>symbol. get_stock_data symbol (year_start e) (market e symbol)) (gainers e) \<noteq> [] \<and>
      \<not> scan_dir_ok e) \<and>
   (exit_status (fst (portfolio_manager_main infer dir_ok quotes fs)) \<noteq> 0 \<longleftrightarrow> \<not> dir_ok)"
proof -
  have 1: "gainers e = [] \<longrightarrow> main e fs = (Returned, fs)"
    by (simp add: main_def)
  have 2: "exit_status (fst (main e fs)) \<noteq> 0 \<longleftrightarrow>
      gainers e \<noteq> [] \<and>
      List.map_filter (\<lambda>symbol. get_stock_data symbol (year_start e) (market e symbol)) (gainers e) \<noteq> [] \<and>
      \<not> scan_dir_ok e"
    by (simp add: main_def Let_def split: sum.splits prod.splits)
  have 3: "exit_status (fst (portfolio_manager_main infer dir_ok quotes fs)) \<noteq> 0 \<longleftrightarrow> \<not> dir_ok"
    by (auto simp: portfolio_manager_main_def update_portfolio_values_def Let_def
        split: sum.splits prod.splits if_splits)
  from 1 2 3 show ?thesis by blast
qed

theorem exit_status_counterexample:
  "gainers (example_env []) = [] \<and> exit_status (fst (main (example_env []) example_files)) = 0"
  by (simp add: main_def example_env_def)

theorem exit_status_of_entry_points_witness:
  "gainers (example_env []) = [] \<and>
   main (example_env []) example_files = (Returned, example_files) \<and>
   market (example_env [''BAD'', ''ABC'']) ''BAD'' = Raises \<and>
   scan_dir_ok (example_env [''BAD'', ''ABC'']) \<and>
   exit_status (fst (main (example_env [''BAD'', ''ABC'']) example_files)) = 0 \<and>
   exit_status (fst (portfolio_manager_main example_inference True example_quotes example_files)) = 0"
  using exit_status_of_entry_points [of "example_env []" example_files example_inference True
      example_quotes]
    exit_status_of_entry_points [of "example_env [''BAD'', ''ABC'']" example_files
      example_inference True example_quotes]
  by (simp add: example_env_def)

end
